theory Spec2Isabelle
  imports
    Main
    "HOL-Library.Char_ord"
    "HOL-Library.List_Lexorder"
    "HOL-Library.Sublist"
    "HOL-Library.Word"
begin

unbundle bit_operations_syntax

section \<open>The prometheus scrape configuration of \<open>cmd/admin-prometheus-generate.go\<close>\<close>

text \<open>
  Go strings are byte sequences, and so is \<^typ>\<open>string\<close>: one \<^typ>\<open>char\<close> per byte.
  A Go slice is a \<^typ>\<open>'a list\<close>; reading or writing index 0 of an empty slice is a
  run-time panic, which every definition below writes out.  (A \<open>nil\<close> slice is not told
  apart from an empty one: no document built by this file's code contains one.)
\<close>

subsection \<open>Constants and document types\<close>

definition defaultJobName :: string where
  "defaultJobName = ''minio-job''"

definition legacyMetricsPath :: string where
  "legacyMetricsPath = ''/minio/prometheus/metrics''"

definition defaultMetricsPath :: string where
  "defaultMetricsPath = ''/minio/v2/metrics/cluster''"

record StatConfig =
  Targets :: "string list"

record ScrapeConfig =
  JobName :: string
  BearerToken :: string
  MetricsPath :: string
  Scheme :: string
  StaticConfigs :: "StatConfig list"

record PrometheusConfig =
  ScrapeConfigs :: "ScrapeConfig list"

text \<open>
  How a call ends: it returns, the process is ended by \<open>os.Exit\<close> with a status, or a
  run-time panic unwinds it (the Go runtime then ends the process with status 2).
\<close>

datatype 'a outcome = Return 'a | Exited nat | Panicked string

definition index_out_of_range :: string where
  "index_out_of_range = ''runtime error: index out of range [0] with length 0''"

subsection \<open>The two package-level templates\<close>

text \<open>
  \<open>defaultConfig\<close> and \<open>legacyConfig\<close> are package-level variables.  The fields the
  composite literals leave out (\<open>BearerToken\<close>, \<open>Scheme\<close>) hold Go's zero value, the
  empty string.
\<close>

definition defaultConfig_init :: PrometheusConfig where
  "defaultConfig_init =
     \<lparr>ScrapeConfigs =
        [\<lparr>JobName = defaultJobName, BearerToken = [], MetricsPath = defaultMetricsPath,
          Scheme = [], StaticConfigs = [\<lparr>Targets = [[]]\<rparr>]\<rparr>]\<rparr>"

definition legacyConfig_init :: PrometheusConfig where
  "legacyConfig_init =
     \<lparr>ScrapeConfigs =
        [\<lparr>JobName = defaultJobName, BearerToken = [], MetricsPath = legacyMetricsPath,
          Scheme = [], StaticConfigs = [\<lparr>Targets = [[]]\<rparr>]\<rparr>]\<rparr>"

record globals =
  defaultConfig :: PrometheusConfig
  legacyConfig :: PrometheusConfig

definition globals_init :: globals where
  "globals_init = \<lparr>defaultConfig = defaultConfig_init, legacyConfig = legacyConfig_init\<rparr>"

subsection \<open>The version gate\<close>

text \<open>
  Go's \<open><\<close> on strings compares byte by byte, a proper prefix being smaller.
\<close>

fun string_less :: "string \<Rightarrow> string \<Rightarrow> bool" where
  "string_less [] [] = False"
| "string_less [] (b # bs) = True"
| "string_less (a # as) [] = False"
| "string_less (a # as) (b # bs) =
     (if (of_char a :: nat) < of_char b then True
      else if (of_char b :: nat) < of_char a then False
      else string_less as bs)"

definition cutover :: string where
  "cutover = ''2021-01-30T00-20-58Z''"

datatype template = Legacy | Current

text \<open>Line 191: the condition \<open>info.Servers[0].Version < "2021-01-30T00-20-58Z"\<close>.\<close>

definition selectTemplate :: "string \<Rightarrow> template" where
  "selectTemplate reportedVersion =
     (if string_less reportedVersion cutover then Legacy else Current)"

subsection \<open>The assembler\<close>

text \<open>
  Lines 192 to 194 and 200 to 202 are the same three assignments, on \<open>legacyConfig\<close> and
  on \<open>defaultConfig\<close>:
  \<^verbatim>\<open>
  X.ScrapeConfigs[0].BearerToken = token
  X.ScrapeConfigs[0].Scheme = u.Scheme
  X.ScrapeConfigs[0].StaticConfigs[0].Targets[0] = u.Host
  \<close>
  Each index expression panics on an empty slice.
\<close>

definition fill :: "string \<Rightarrow> string \<Rightarrow> string \<Rightarrow> PrometheusConfig \<Rightarrow> PrometheusConfig outcome" where
  "fill token scheme host c =
     (case ScrapeConfigs c of
        [] \<Rightarrow> Panicked index_out_of_range
      | sc # scs \<Rightarrow>
          (case StaticConfigs sc of
             [] \<Rightarrow> Panicked index_out_of_range
           | st # sts \<Rightarrow>
               (case Targets st of
                  [] \<Rightarrow> Panicked index_out_of_range
                | t # ts \<Rightarrow>
                    Return (c\<lparr>ScrapeConfigs :=
                      sc\<lparr>BearerToken := token, Scheme := scheme,
                         StaticConfigs := st\<lparr>Targets := host # ts\<rparr> # sts\<rparr> # scs\<rparr>))))"

text \<open>
  The assembler fills the variable of the selected template in place and hands the
  variable's value to the printer; the returned state is the variables after the call.
\<close>

definition assemble ::
  "template \<Rightarrow> string \<Rightarrow> string \<Rightarrow> string \<Rightarrow> globals \<Rightarrow> (PrometheusConfig \<times> globals) outcome" where
  "assemble t token scheme host g =
     (case t of
        Legacy \<Rightarrow>
          (case fill token scheme host (legacyConfig g) of
             Return c \<Rightarrow> Return (c, g\<lparr>legacyConfig := c\<rparr>)
           | Exited n \<Rightarrow> Exited n
           | Panicked m \<Rightarrow> Panicked m)
      | Current \<Rightarrow>
          (case fill token scheme host (defaultConfig g) of
             Return c \<Rightarrow> Return (c, g\<lparr>defaultConfig := c\<rparr>)
           | Exited n \<Rightarrow> Exited n
           | Panicked m \<Rightarrow> Panicked m))"

text \<open>
  The variables after a sequence of earlier assemblies in the same process, each given by
  its template, token, scheme and host.
\<close>

fun earlier :: "(template \<times> string \<times> string \<times> string) list \<Rightarrow> globals \<Rightarrow> globals outcome" where
  "earlier [] g = Return g"
| "earlier ((t, token, scheme, host) # calls) g =
     (case assemble t token scheme host g of
        Return (c, g') \<Rightarrow> earlier calls g'
      | Exited n \<Rightarrow> Exited n
      | Panicked m \<Rightarrow> Panicked m)"

text \<open>The constant a template starts as, and the document the assembler makes of it.\<close>

definition template_init :: "template \<Rightarrow> PrometheusConfig" where
  "template_init t = (case t of Legacy \<Rightarrow> legacyConfig_init | Current \<Rightarrow> defaultConfig_init)"

definition template_path :: "template \<Rightarrow> string" where
  "template_path t = (case t of Legacy \<Rightarrow> legacyMetricsPath | Current \<Rightarrow> defaultMetricsPath)"

definition filled :: "template \<Rightarrow> string \<Rightarrow> string \<Rightarrow> string \<Rightarrow> PrometheusConfig" where
  "filled t token scheme host =
     \<lparr>ScrapeConfigs =
        [\<lparr>JobName = defaultJobName, BearerToken = token, MetricsPath = template_path t,
          Scheme = scheme, StaticConfigs = [\<lparr>Targets = [host]\<rparr>]\<rparr>]\<rparr>"

subsection \<open>Processes\<close>

text \<open>
  What a run of the command has written so far: the messages printed by \<open>printMsg\<close>, and
  everything else (diagnostics of fatal errors, the usage text), next to the package-level
  variables.  A call takes the process and gives it back with how the call ended.
\<close>

record process =
  vars :: globals
  printed :: "string list"
  diagnostics :: "string list"

definition process_init :: process where
  "process_init = \<lparr>vars = globals_init, printed = [], diagnostics = []\<rparr>"

definition then_do ::
  "'a outcome \<times> process \<Rightarrow> ('a \<Rightarrow> process \<Rightarrow> 'b outcome \<times> process) \<Rightarrow> 'b outcome \<times> process" where
  "then_do r f =
     (case r of
        (Return a, p) \<Rightarrow> f a p
      | (Exited n, p) \<Rightarrow> (Exited n, p)
      | (Panicked m, p) \<Rightarrow> (Panicked m, p))"

text \<open>
  Modelled from the spec: \<open>fatalIf\<close> is defined elsewhere in package \<open>cmd\<close>.  The spec has a
  fatal error terminate the process with a non-zero status and a human-readable diagnostic;
  a \<open>nil\<close> error (\<open>None\<close>) lets the caller go on.
\<close>

definition fatalIf :: "string option \<Rightarrow> string \<Rightarrow> process \<Rightarrow> unit outcome \<times> process" where
  "fatalIf err msg p =
     (case err of
        None \<Rightarrow> (Return (), p)
      | Some e \<Rightarrow> (Exited 1, p\<lparr>diagnostics := diagnostics p @ [msg @ '' '' @ e]\<rparr>))"

subsection \<open>Plain JSON text\<close>

text \<open>
  JSON text as Go's \<open>encoding/json\<close> writes it: strings are quoted with HTML escaping, and
  \<open>MarshalIndent(v, "", " ")\<close> indents every nesting level by one space.  The program
  marshals with \<open>github.com/minio/colorjson\<close>, a copy of that package which colours its
  output and looks at the terminal: that marshaller is a collaborator of the command (see
  below), and the texts \<open>json_ScrapeConfig 0\<close> and \<open>json_Targets 0\<close> defined here are what
  it writes to a terminal with colours off, for slices that are not \<open>nil\<close> (a \<open>nil\<close> slice
  is written \<open>null\<close>, an empty one \<open>[]\<close>).  Object keys follow the \<open>json\<close> struct tags
  of lines 88 and 109 to 113.
\<close>

definition dquote :: char where
  "dquote = CHR 0x22"

definition backslash :: char where
  "backslash = CHR 0x5C"

definition hex :: "nat \<Rightarrow> char" where
  "hex n = ''0123456789abcdef'' ! (n mod 16)"

definition htmlSafe :: "nat \<Rightarrow> bool" where
  "htmlSafe b = (0x20 \<le> b \<and> b < 0x80 \<and> b \<noteq> 0x22 \<and> b \<noteq> 0x26 \<and> b \<noteq> 0x3C \<and> b \<noteq> 0x3E \<and> b \<noteq> 0x5C)"

definition escape_byte :: "char \<Rightarrow> string" where
  "escape_byte c =
     (let b = (of_char c :: nat) in
      if b = 0x5C \<or> b = 0x22 then [backslash, c]
      else if b = 0x0A then [backslash, CHR ''n'']
      else if b = 0x0D then [backslash, CHR ''r'']
      else if b = 0x09 then [backslash, CHR ''t'']
      else [backslash, CHR ''u'', CHR ''0'', CHR ''0'', hex (b div 16), hex (b mod 16)])"

text \<open>
  \<open>utf8.DecodeRuneInString\<close>, as far as the encoder needs it: the width of the well-formed
  UTF-8 sequence a string starts with, for a first byte of 0x80 or more, and 0 when there
  is none (the decoder then answers \<open>RuneError\<close> with width 1).
\<close>

definition utf8_first :: "nat \<Rightarrow> (nat \<times> nat \<times> nat) option" where
  "utf8_first s0 =
     (if 0xC2 \<le> s0 \<and> s0 \<le> 0xDF then Some (2, 0x80, 0xBF)
      else if s0 = 0xE0 then Some (3, 0xA0, 0xBF)
      else if s0 = 0xED then Some (3, 0x80, 0x9F)
      else if 0xE1 \<le> s0 \<and> s0 \<le> 0xEF then Some (3, 0x80, 0xBF)
      else if s0 = 0xF0 then Some (4, 0x90, 0xBF)
      else if 0xF1 \<le> s0 \<and> s0 \<le> 0xF3 then Some (4, 0x80, 0xBF)
      else if s0 = 0xF4 then Some (4, 0x80, 0x8F)
      else None)"

definition continuation :: "nat \<Rightarrow> bool" where
  "continuation b = (0x80 \<le> b \<and> b \<le> 0xBF)"

definition rune_width :: "nat list \<Rightarrow> nat" where
  "rune_width s =
     (case s of
        [] \<Rightarrow> 0
      | s0 # r0 \<Rightarrow>
          (case utf8_first s0 of
             None \<Rightarrow> 0
           | Some (sz, lo, hi) \<Rightarrow>
               (case r0 of
                  [] \<Rightarrow> 0
                | s1 # r1 \<Rightarrow>
                    if s1 < lo \<or> hi < s1 then 0
                    else if sz \<le> 2 then 2
                    else
                      (case r1 of
                         [] \<Rightarrow> 0
                       | s2 # r2 \<Rightarrow>
                           if \<not> continuation s2 then 0
                           else if sz \<le> 3 then 3
                           else
                             (case r2 of
                                [] \<Rightarrow> 0
                              | s3 # r3 \<Rightarrow> if \<not> continuation s3 then 0 else 4)))))"

fun string_body :: "string \<Rightarrow> string" where
  "string_body [] = []"
| "string_body (c # cs) =
     (if (of_char c :: nat) < 0x80 then
        (if htmlSafe (of_char c) then [c] else escape_byte c) @ string_body cs
      else
        (let w = rune_width (map of_char (c # cs)) in
         if w = 0 then backslash # ''ufffd'' @ string_body cs
         else if w = 3 \<and> map of_char (take 3 (c # cs)) = [0xE2, 0x80, 0xA8 :: nat] then
           backslash # ''u2028'' @ string_body (drop 2 cs)
         else if w = 3 \<and> map of_char (take 3 (c # cs)) = [0xE2, 0x80, 0xA9 :: nat] then
           backslash # ''u2029'' @ string_body (drop 2 cs)
         else take w (c # cs) @ string_body (drop (w - 1) cs)))"

definition json_string :: "string \<Rightarrow> string" where
  "json_string s = dquote # string_body s @ [dquote]"

fun join :: "string \<Rightarrow> string list \<Rightarrow> string" where
  "join sep [] = []"
| "join sep [x] = x"
| "join sep (x # y # ys) = x @ sep @ join sep (y # ys)"

definition newline :: "nat \<Rightarrow> string" where
  "newline depth = CHR 0x0A # replicate depth (CHR '' '')"

text \<open>
  An array and an object whose opening bracket stands on a line indented by \<open>depth\<close>; the
  members are given as they are written at \<open>depth + 1\<close>.
\<close>

definition json_array :: "nat \<Rightarrow> string list \<Rightarrow> string" where
  "json_array depth items =
     (if items = [] then ''[]''
      else ''['' @ newline (depth + 1) @ join (CHR '','' # newline (depth + 1)) items
           @ newline depth @ '']'')"

definition json_object :: "nat \<Rightarrow> (string \<times> string) list \<Rightarrow> string" where
  "json_object depth members =
     (if members = [] then ''{}''
      else ''{'' @ newline (depth + 1)
           @ join (CHR '','' # newline (depth + 1))
               (map (\<lambda>(k, v). dquote # k @ [dquote] @ '': '' @ v) members)
           @ newline depth @ ''}'')"

definition json_Targets :: "nat \<Rightarrow> string list \<Rightarrow> string" where
  "json_Targets depth ts = json_array depth (map json_string ts)"

definition json_StatConfig :: "nat \<Rightarrow> StatConfig \<Rightarrow> string" where
  "json_StatConfig depth st = json_object depth [(''targets'', json_Targets (depth + 1) (Targets st))]"

definition json_ScrapeConfig :: "nat \<Rightarrow> ScrapeConfig \<Rightarrow> string" where
  "json_ScrapeConfig depth sc =
     json_object depth
       [(''jobName'', json_string (JobName sc)),
        (''bearerToken'', json_string (BearerToken sc)),
        (''metricsPath'', json_string (MetricsPath sc)),
        (''scheme'', json_string (Scheme sc)),
        (''staticConfigs'',
           json_array (depth + 1) (map (json_StatConfig (depth + 2)) (StaticConfigs sc)))]"

subsection \<open>The collaborators of the command\<close>

text \<open>
  The alias store, the URL parser, the clock, the token signer, the admin client, the JSON
  marshaller, and the YAML serializer and colorizer of the structured rendering are not
  part of this file of the program: the command is modelled for any behaviour of theirs,
  as fields of an environment.  An error value is its message.  The two fields
  \<open>MarshalIndent_ScrapeConfig\<close> and \<open>MarshalIndent_Targets\<close> are the marshaller's
  \<open>MarshalIndent(v, "", " ")\<close> at the two types the program gives it; what it writes
  depends on the terminal and on the colours configured.
\<close>

record aliasConfig =
  URL :: string
  AccessKey :: string
  SecretKey :: string

text \<open>The two fields of a parsed \<open>url.URL\<close> that the command reads.\<close>

record url =
  url_Scheme :: string
  url_Host :: string

record ServerProperties =
  Version :: string

record InfoMessage =
  Servers :: "ServerProperties list"

text \<open>
  \<open>jwtgo.StandardClaims\<close>, and the token \<open>jwtgo.NewWithClaims\<close> builds: the algorithm of
  the signing method goes into the header.  Times are in seconds since the Unix epoch.
\<close>

record StandardClaims =
  Audience :: string
  ExpiresAt :: int
  Id :: string
  IssuedAt :: int
  Issuer :: string
  NotBefore :: int
  Subject :: string

record Token =
  Header :: "(string \<times> string) list"
  Claims :: StandardClaims

definition NewWithClaims :: "string \<Rightarrow> StandardClaims \<Rightarrow> Token" where
  "NewWithClaims alg claims = \<lparr>Header = [(''typ'', ''JWT''), (''alg'', alg)], Claims = claims\<rparr>"

definition SigningMethodHS512 :: string where
  "SigningMethodHS512 = ''HS512''"

record env =
  Args :: "string list"
  cleanAlias :: "string \<Rightarrow> string"
  isValidAlias :: "string \<Rightarrow> bool"
  mustGetHostConfig :: "string \<Rightarrow> aliasConfig option"
  url_Parse :: "string \<Rightarrow> string + url"
  UTCNow :: int
  SignedString :: "Token \<Rightarrow> string \<Rightarrow> string + string"
  newAdminClient :: "string \<Rightarrow> string option"
  ServerInfo :: "string \<Rightarrow> string + InfoMessage"
  globalJSON :: bool
  MarshalIndent_ScrapeConfig :: "ScrapeConfig \<Rightarrow> string + string"
  MarshalIndent_Targets :: "string list \<Rightarrow> string + string"
  yaml_Marshal :: "PrometheusConfig \<Rightarrow> string + string"
  Colorize :: "string \<Rightarrow> string \<Rightarrow> string"

subsection \<open>The token signer of the JWT library\<close>

text \<open>
  \<open>Token.SignedString\<close> of \<open>github.com/dgrijalva/jwt-go\<close> for the signing method HS512,
  as that library has it: the header and the claims are marshalled to compact JSON, each
  is written in unpadded URL-safe base 64, and the two segments joined by a dot are signed
  with HMAC over SHA-512 (FIPS 180-4 and RFC 2104).  The library's method is
  \<^verbatim>\<open>
  func (m *SigningMethodHMAC) Sign(signingString string, key interface{}) (string, error) {
      if keyBytes, ok := key.([]byte); ok {
          if !m.Hash.Available() {
              return "", ErrHashUnavailable
          }
          hasher := hmac.New(m.Hash.New, keyBytes)
          hasher.Write([]byte(signingString))
          return EncodeSegment(hasher.Sum(nil)), nil
      }
      return "", ErrInvalidKeyType
  }
  \<close>
  The command passes a \<open>[]byte\<close>, and SHA-512 is linked into the program: the method
  reports no error, whatever the length of the key.
\<close>

definition K512 :: "64 word list" where
  "K512 =
     [
      0x428A2F98D728AE22, 0x7137449123EF65CD, 0xB5C0FBCFEC4D3B2F, 0xE9B5DBA58189DBBC,
      0x3956C25BF348B538, 0x59F111F1B605D019, 0x923F82A4AF194F9B, 0xAB1C5ED5DA6D8118,
      0xD807AA98A3030242, 0x12835B0145706FBE, 0x243185BE4EE4B28C, 0x550C7DC3D5FFB4E2,
      0x72BE5D74F27B896F, 0x80DEB1FE3B1696B1, 0x9BDC06A725C71235, 0xC19BF174CF692694,
      0xE49B69C19EF14AD2, 0xEFBE4786384F25E3, 0x0FC19DC68B8CD5B5, 0x240CA1CC77AC9C65,
      0x2DE92C6F592B0275, 0x4A7484AA6EA6E483, 0x5CB0A9DCBD41FBD4, 0x76F988DA831153B5,
      0x983E5152EE66DFAB, 0xA831C66D2DB43210, 0xB00327C898FB213F, 0xBF597FC7BEEF0EE4,
      0xC6E00BF33DA88FC2, 0xD5A79147930AA725, 0x06CA6351E003826F, 0x142929670A0E6E70,
      0x27B70A8546D22FFC, 0x2E1B21385C26C926, 0x4D2C6DFC5AC42AED, 0x53380D139D95B3DF,
      0x650A73548BAF63DE, 0x766A0ABB3C77B2A8, 0x81C2C92E47EDAEE6, 0x92722C851482353B,
      0xA2BFE8A14CF10364, 0xA81A664BBC423001, 0xC24B8B70D0F89791, 0xC76C51A30654BE30,
      0xD192E819D6EF5218, 0xD69906245565A910, 0xF40E35855771202A, 0x106AA07032BBD1B8,
      0x19A4C116B8D2D0C8, 0x1E376C085141AB53, 0x2748774CDF8EEB99, 0x34B0BCB5E19B48A8,
      0x391C0CB3C5C95A63, 0x4ED8AA4AE3418ACB, 0x5B9CCA4F7763E373, 0x682E6FF3D6B2B8A3,
      0x748F82EE5DEFB2FC, 0x78A5636F43172F60, 0x84C87814A1F0AB72, 0x8CC702081A6439EC,
      0x90BEFFFA23631E28, 0xA4506CEBDE82BDE9, 0xBEF9A3F7B2C67915, 0xC67178F2E372532B,
      0xCA273ECEEA26619C, 0xD186B8C721C0C207, 0xEADA7DD6CDE0EB1E, 0xF57D4F7FEE6ED178,
      0x06F067AA72176FBA, 0x0A637DC5A2C898A6, 0x113F9804BEF90DAE, 0x1B710B35131C471B,
      0x28DB77F523047D84, 0x32CAAB7B40C72493, 0x3C9EBE0A15C9BEBC, 0x431D67C49C100D4C,
      0x4CC5D4BECB3E42B6, 0x597F299CFC657E2A, 0x5FCB6FAB3AD6FAEC, 0x6C44198C4A475817
     ]"

definition H512 :: "64 word list" where
  "H512 =
     [
      0x6A09E667F3BCC908, 0xBB67AE8584CAA73B, 0x3C6EF372FE94F82B, 0xA54FF53A5F1D36F1,
      0x510E527FADE682D1, 0x9B05688C2B3E6C1F, 0x1F83D9ABFB41BD6B, 0x5BE0CD19137E2179
     ]"

definition Ch :: "64 word \<Rightarrow> 64 word \<Rightarrow> 64 word \<Rightarrow> 64 word" where
  "Ch x y z = (x AND y) XOR (NOT x AND z)"

definition Maj :: "64 word \<Rightarrow> 64 word \<Rightarrow> 64 word \<Rightarrow> 64 word" where
  "Maj x y z = (x AND y) XOR (x AND z) XOR (y AND z)"

definition Sigma0 :: "64 word \<Rightarrow> 64 word" where
  "Sigma0 x = word_rotr 28 x XOR word_rotr 34 x XOR word_rotr 39 x"

definition Sigma1 :: "64 word \<Rightarrow> 64 word" where
  "Sigma1 x = word_rotr 14 x XOR word_rotr 18 x XOR word_rotr 41 x"

definition sigma0 :: "64 word \<Rightarrow> 64 word" where
  "sigma0 x = word_rotr 1 x XOR word_rotr 8 x XOR drop_bit 7 x"

definition sigma1 :: "64 word \<Rightarrow> 64 word" where
  "sigma1 x = word_rotr 19 x XOR word_rotr 61 x XOR drop_bit 6 x"

text \<open>Bytes are numbers below 256 here; words are big-endian.\<close>

definition word_of_bytes :: "nat list \<Rightarrow> 64 word" where
  "word_of_bytes bs = of_nat (foldl (\<lambda>acc b. acc * 256 + b) 0 bs)"

definition bytes_of_nat :: "nat \<Rightarrow> nat \<Rightarrow> nat list" where
  "bytes_of_nat len n = map (\<lambda>i. (n div 256 ^ (len - 1 - i)) mod 256) [0..<len]"

definition chunks :: "nat \<Rightarrow> 'a list \<Rightarrow> 'a list list" where
  "chunks n xs = map (\<lambda>i. take n (drop (n * i) xs)) [0..<length xs div n]"

fun extend :: "nat \<Rightarrow> 64 word list \<Rightarrow> 64 word list" where
  "extend 0 ws = ws"
| "extend (Suc n) ws =
     (let t = length ws in
      extend n (ws @ [sigma1 (ws ! (t - 2)) + ws ! (t - 7) + sigma0 (ws ! (t - 15)) + ws ! (t - 16)]))"

fun round :: "64 word \<times> 64 word \<Rightarrow> 64 word list \<Rightarrow> 64 word list" where
  "round (k, w) [a, b, c, d, e, f, g, h] =
     (let T1 = h + Sigma1 e + Ch e f g + k + w;
          T2 = Sigma0 a + Maj a b c
      in [T1 + T2, a, b, c, d + T1, e, f, g])"
| "round (k, w) v = v"

definition compress :: "nat list \<Rightarrow> 64 word list \<Rightarrow> 64 word list" where
  "compress block hs =
     map2 (+) hs (fold round (zip K512 (extend 64 (map word_of_bytes (chunks 8 block)))) hs)"

definition pad :: "nat list \<Rightarrow> nat list" where
  "pad msg =
     msg @ [0x80] @ replicate ((128 - (length msg + 17) mod 128) mod 128) 0
       @ bytes_of_nat 16 (8 * length msg)"

definition SHA512 :: "nat list \<Rightarrow> nat list" where
  "SHA512 msg = concat (map (bytes_of_nat 8 \<circ> unat) (fold compress (chunks 128 (pad msg)) H512))"

definition xor_byte :: "nat \<Rightarrow> nat \<Rightarrow> nat" where
  "xor_byte a b = unat ((of_nat a :: 8 word) XOR of_nat b)"

definition HMAC_SHA512 :: "nat list \<Rightarrow> nat list \<Rightarrow> nat list" where
  "HMAC_SHA512 key msg =
     (let k = (if 128 < length key then SHA512 key else key);
          k' = k @ replicate (128 - length k) 0
      in SHA512 (map (xor_byte 0x5C) k' @ SHA512 (map (xor_byte 0x36) k' @ msg)))"

definition alphabet :: "nat \<Rightarrow> char" where
  "alphabet n = ''ABCDEFGHIJKLMNOPQRSTUVWXYZabcdefghijklmnopqrstuvwxyz0123456789-_'' ! (n mod 64)"

fun base64url :: "nat list \<Rightarrow> string" where
  "base64url [] = []"
| "base64url [a] = [alphabet (a div 4), alphabet (a mod 4 * 16)]"
| "base64url [a, b] =
     [alphabet (a div 4), alphabet (a mod 4 * 16 + b div 16), alphabet (b mod 16 * 4)]"
| "base64url (a # b # c # bs) =
     [alphabet (a div 4), alphabet (a mod 4 * 16 + b div 16),
      alphabet (b mod 16 * 4 + c div 64), alphabet (c mod 64)] @ base64url bs"

definition EncodeSegment :: "string \<Rightarrow> string" where
  "EncodeSegment seg = base64url (map of_char seg)"

fun decimal :: "nat \<Rightarrow> string" where
  "decimal n =
     (if n < 10 then [''0123456789'' ! n]
      else decimal (n div 10) @ [''0123456789'' ! (n mod 10)])"

declare decimal.simps [simp del]

definition json_int :: "int \<Rightarrow> string" where
  "json_int i = (if i < 0 then CHR ''-'' # decimal (nat (- i)) else decimal (nat i))"

definition compact_object :: "(string \<times> string) list \<Rightarrow> string" where
  "compact_object members =
     ''{'' @ join '','' (map (\<lambda>(k, v). dquote # k @ [dquote] @ '':'' @ v) members) @ ''}''"

text \<open>A map is marshalled with its keys sorted; the claims omit their empty fields.\<close>

definition json_Header :: "(string \<times> string) list \<Rightarrow> string" where
  "json_Header h = compact_object (map (\<lambda>(k, v). (k, json_string v)) (sort_key fst h))"

definition json_StandardClaims :: "StandardClaims \<Rightarrow> string" where
  "json_StandardClaims c =
     compact_object
       ((if Audience c = [] then [] else [(''aud'', json_string (Audience c))])
        @ (if ExpiresAt c = 0 then [] else [(''exp'', json_int (ExpiresAt c))])
        @ (if Id c = [] then [] else [(''jti'', json_string (Id c))])
        @ (if IssuedAt c = 0 then [] else [(''iat'', json_int (IssuedAt c))])
        @ (if Issuer c = [] then [] else [(''iss'', json_string (Issuer c))])
        @ (if NotBefore c = 0 then [] else [(''nbf'', json_int (NotBefore c))])
        @ (if Subject c = [] then [] else [(''sub'', json_string (Subject c))]))"

definition SigningString :: "Token \<Rightarrow> string" where
  "SigningString t =
     EncodeSegment (json_Header (Header t)) @ ''.'' @ EncodeSegment (json_StandardClaims (Claims t))"

definition HS512_Sign :: "string \<Rightarrow> string \<Rightarrow> string + string" where
  "HS512_Sign signingString key =
     Inr (base64url (HMAC_SHA512 (map of_char key) (map of_char signingString)))"

definition HS512_SignedString :: "Token \<Rightarrow> string \<Rightarrow> string + string" where
  "HS512_SignedString t key =
     (let sstr = SigningString t in
      case HS512_Sign sstr key of
        Inl err \<Rightarrow> Inl err
      | Inr sig \<Rightarrow> Inr (sstr @ ''.'' @ sig))"

subsection \<open>The token parser of the JWT library\<close>

text \<open>
  \<open>Parser.ParseWithClaims\<close> of \<open>github.com/dgrijalva/jwt-go\<close> at the claims type
  \<open>StandardClaims\<close>, for the tokens \<open>SignedString\<close> writes: the token is split at its dots
  into three segments, the first two are decoded from base 64 and unmarshalled by Go's
  \<open>encoding/json\<close>, the header has to name the method HS512, and the signature segment
  has to be the HMAC of the first two segments under the key.  The JSON decoder is written
  for compact objects of strings and integers, which is all the library's encoder writes
  here; Go's decoder accepts more (white space, other values, keys in another case).  The
  check of the validity window against the time of parsing is not part of the decoding and
  is left out.
\<close>

definition b64_index :: "char \<Rightarrow> nat option" where
  "b64_index c =
     (let n = (of_char c :: nat) in
      if 65 \<le> n \<and> n \<le> 90 then Some (n - 65)
      else if 97 \<le> n \<and> n \<le> 122 then Some (n - 71)
      else if 48 \<le> n \<and> n \<le> 57 then Some (n + 4)
      else if n = 45 then Some 62
      else if n = 95 then Some 63
      else None)"

text \<open>
  \<open>DecodeSegment\<close> pads the segment and decodes it with \<open>base64.URLEncoding\<close>: four
  characters give three bytes, a rest of two or three characters one or two bytes, and a
  rest of one character is an error.
\<close>

fun base64url_decode :: "string \<Rightarrow> nat list option" where
  "base64url_decode [] = Some []"
| "base64url_decode [a] = None"
| "base64url_decode [a, b] =
     (case b64_index a of None \<Rightarrow> None | Some x \<Rightarrow>
      (case b64_index b of None \<Rightarrow> None | Some y \<Rightarrow> Some [x * 4 + y div 16]))"
| "base64url_decode [a, b, c] =
     (case b64_index a of None \<Rightarrow> None | Some x \<Rightarrow>
      (case b64_index b of None \<Rightarrow> None | Some y \<Rightarrow>
       (case b64_index c of None \<Rightarrow> None | Some z \<Rightarrow>
          Some [x * 4 + y div 16, y mod 16 * 16 + z div 4])))"
| "base64url_decode (a # b # c # d # rest) =
     (case b64_index a of None \<Rightarrow> None | Some x \<Rightarrow>
      (case b64_index b of None \<Rightarrow> None | Some y \<Rightarrow>
       (case b64_index c of None \<Rightarrow> None | Some z \<Rightarrow>
        (case b64_index d of None \<Rightarrow> None | Some w \<Rightarrow>
         (case base64url_decode rest of None \<Rightarrow> None | Some bs \<Rightarrow>
            Some ([x * 4 + y div 16, y mod 16 * 16 + z div 4, z mod 4 * 64 + w] @ bs))))))"

definition DecodeSegment :: "string \<Rightarrow> string option" where
  "DecodeSegment seg = map_option (map char_of) (base64url_decode seg)"

text \<open>\<open>strings.Split(tokenString, ".")\<close>.\<close>

fun split_dot :: "string \<Rightarrow> string list" where
  "split_dot [] = [[]]"
| "split_dot (c # cs) =
     (if c = CHR ''.'' then [] # split_dot cs
      else (case split_dot cs of [] \<Rightarrow> [[c]] | s # ss \<Rightarrow> (c # s) # ss))"

text \<open>
  A JSON string literal, after its opening quote: the string it stands for and the text
  after its closing quote.  An escape \<open>\uXXXX\<close> stands for the UTF-8 encoding of its code
  point (of U+FFFD for a surrogate without its partner), and bytes that are not
  well-formed UTF-8 are read as U+FFFD.
\<close>

definition hexval :: "char \<Rightarrow> nat option" where
  "hexval c =
     (let n = (of_char c :: nat) in
      if 48 \<le> n \<and> n \<le> 57 then Some (n - 48)
      else if 97 \<le> n \<and> n \<le> 102 then Some (n - 87)
      else if 65 \<le> n \<and> n \<le> 70 then Some (n - 55)
      else None)"

definition getu4 :: "string \<Rightarrow> nat option" where
  "getu4 s =
     (case s of
        a # b # c # d # rest \<Rightarrow>
          (case hexval a of None \<Rightarrow> None | Some x \<Rightarrow>
           (case hexval b of None \<Rightarrow> None | Some y \<Rightarrow>
            (case hexval c of None \<Rightarrow> None | Some z \<Rightarrow>
             (case hexval d of None \<Rightarrow> None | Some w \<Rightarrow>
                Some (((x * 16 + y) * 16 + z) * 16 + w)))))
      | _ \<Rightarrow> None)"

definition EncodeRune :: "nat \<Rightarrow> string" where
  "EncodeRune r =
     (if r < 0x80 then [char_of r]
      else if r < 0x800 then [char_of (0xC0 + r div 64), char_of (0x80 + r mod 64)]
      else if (0xD800 \<le> r \<and> r < 0xE000) \<or> 0x10FFFF < r then [CHR 0xEF, CHR 0xBF, CHR 0xBD]
      else if r < 0x10000 then
        [char_of (0xE0 + r div 4096), char_of (0x80 + r div 64 mod 64), char_of (0x80 + r mod 64)]
      else
        [char_of (0xF0 + r div 262144), char_of (0x80 + r div 4096 mod 64),
         char_of (0x80 + r div 64 mod 64), char_of (0x80 + r mod 64)])"

definition escaped :: "char \<Rightarrow> char option" where
  "escaped e =
     (if e = CHR 0x22 \<or> e = CHR 0x5C \<or> e = CHR ''/'' then Some e
      else if e = CHR ''b'' then Some (CHR 0x08)
      else if e = CHR ''f'' then Some (CHR 0x0C)
      else if e = CHR ''n'' then Some (CHR 0x0A)
      else if e = CHR ''r'' then Some (CHR 0x0D)
      else if e = CHR ''t'' then Some (CHR 0x09)
      else None)"

text \<open>The low surrogate of an escape \<open>\uXXXX\<close> that the text starts with.\<close>

definition low_surrogate :: "string \<Rightarrow> nat option" where
  "low_surrogate s =
     (case s of
        a # b # rest \<Rightarrow>
          if a = CHR 0x5C \<and> b = CHR ''u'' then
            (case getu4 rest of
               None \<Rightarrow> None
             | Some r \<Rightarrow> if 0xDC00 \<le> r \<and> r < 0xE000 then Some r else None)
          else None
      | _ \<Rightarrow> None)"

definition prepend :: "string \<Rightarrow> (string \<times> string) option \<Rightarrow> (string \<times> string) option" where
  "prepend s r = map_option (\<lambda>(v, rest). (s @ v, rest)) r"

fun unquote :: "string \<Rightarrow> (string \<times> string) option" where
  "unquote [] = None"
| "unquote (c # cs) =
     (if c = CHR 0x22 then Some ([], cs)
      else if c = CHR 0x5C then
        (case cs of
           [] \<Rightarrow> None
         | e # es \<Rightarrow>
             if e = CHR ''u'' then
               (case getu4 es of
                  None \<Rightarrow> None
                | Some r \<Rightarrow>
                    if 0xD800 \<le> r \<and> r < 0xDC00 then
                      (case low_surrogate (drop 4 es) of
                         None \<Rightarrow> prepend (EncodeRune 0xFFFD) (unquote (drop 4 es))
                       | Some r1 \<Rightarrow>
                           prepend (EncodeRune (0x10000 + (r - 0xD800) * 1024 + (r1 - 0xDC00)))
                             (unquote (drop 10 es)))
                    else prepend (EncodeRune r) (unquote (drop 4 es)))
             else
               (case escaped e of
                  None \<Rightarrow> None
                | Some ch \<Rightarrow> prepend [ch] (unquote es)))
      else if (of_char c :: nat) < 0x20 then None
      else if (of_char c :: nat) < 0x80 then prepend [c] (unquote cs)
      else
        (let w = rune_width (map of_char (c # cs)) in
         if w = 0 then prepend (EncodeRune 0xFFFD) (unquote cs)
         else prepend (take w (c # cs)) (unquote (drop (w - 1) cs))))"

text \<open>
  An integer literal and the text after it.  A fraction or an exponent cannot be
  unmarshalled into an integer field.
\<close>

definition is_digit :: "char \<Rightarrow> bool" where
  "is_digit c = (48 \<le> (of_char c :: nat) \<and> (of_char c :: nat) \<le> 57)"

definition parse_digits :: "string \<Rightarrow> (nat \<times> string) option" where
  "parse_digits s =
     (let ds = takeWhile is_digit s; rest = dropWhile is_digit s in
      if ds = [] then None
      else if 1 < length ds \<and> hd ds = CHR ''0'' then None
      else if rest \<noteq> [] \<and> hd rest \<in> {CHR ''.'', CHR ''e'', CHR ''E''} then None
      else Some (foldl (\<lambda>acc d. acc * 10 + (of_char d - 48)) 0 ds, rest))"

definition parse_int :: "string \<Rightarrow> (int \<times> string) option" where
  "parse_int s =
     (case s of
        [] \<Rightarrow> None
      | c # cs \<Rightarrow>
          if c = CHR ''-'' then map_option (\<lambda>(n, rest). (- int n, rest)) (parse_digits cs)
          else map_option (\<lambda>(n, rest). (int n, rest)) (parse_digits s))"

datatype jvalue = JString string | JNumber int

definition parse_value :: "string \<Rightarrow> (jvalue \<times> string) option" where
  "parse_value s =
     (case s of
        [] \<Rightarrow> None
      | c # cs \<Rightarrow>
          if c = CHR 0x22 then map_option (\<lambda>(v, rest). (JString v, rest)) (unquote cs)
          else map_option (\<lambda>(i, rest). (JNumber i, rest)) (parse_int s))"

text \<open>
  The members of an object, from the opening quote of a key up to the closing brace, which
  ends the text.  Every member takes at least one character, so the length of the text is
  fuel enough.
\<close>

fun parse_members :: "nat \<Rightarrow> string \<Rightarrow> (string \<times> jvalue) list option" where
  "parse_members 0 s = None"
| "parse_members (Suc fuel) s =
     (case s of
        [] \<Rightarrow> None
      | c # cs \<Rightarrow>
          if c \<noteq> CHR 0x22 then None
          else
            (case unquote cs of
               None \<Rightarrow> None
             | Some (k, r1) \<Rightarrow>
                 (case r1 of
                    [] \<Rightarrow> None
                  | c1 # r2 \<Rightarrow>
                      if c1 \<noteq> CHR '':'' then None
                      else
                        (case parse_value r2 of
                           None \<Rightarrow> None
                         | Some (v, r3) \<Rightarrow>
                             (case r3 of
                                [] \<Rightarrow> None
                              | c3 # r4 \<Rightarrow>
                                  if c3 = CHR ''}'' then (if r4 = [] then Some [(k, v)] else None)
                                  else if c3 = CHR '','' then
                                    map_option (\<lambda>ms. (k, v) # ms) (parse_members fuel r4)
                                  else None)))))"

definition parse_object :: "string \<Rightarrow> (string \<times> jvalue) list option" where
  "parse_object s =
     (case s of
        [] \<Rightarrow> None
      | c # cs \<Rightarrow>
          if c \<noteq> CHR ''{'' then None
          else if cs = ''}'' then Some []
          else parse_members (length cs) cs)"

text \<open>
  Unmarshalling into \<open>StandardClaims\<close>: a field takes the value of the member with its
  key, the last one if there are several, and keeps its zero value without one; a value
  of the wrong kind is an error.
\<close>

definition string_field :: "(string \<times> jvalue) list \<Rightarrow> string \<Rightarrow> string option" where
  "string_field ms k =
     (case map_of (rev ms) k of
        None \<Rightarrow> Some []
      | Some (JString s) \<Rightarrow> Some s
      | Some (JNumber i) \<Rightarrow> None)"

definition int_field :: "(string \<times> jvalue) list \<Rightarrow> string \<Rightarrow> int option" where
  "int_field ms k =
     (case map_of (rev ms) k of
        None \<Rightarrow> Some 0
      | Some (JNumber i) \<Rightarrow> Some i
      | Some (JString s) \<Rightarrow> None)"

definition StandardClaims_of :: "(string \<times> jvalue) list \<Rightarrow> StandardClaims option" where
  "StandardClaims_of ms =
     (case string_field ms ''aud'' of None \<Rightarrow> None | Some aud \<Rightarrow>
      (case int_field ms ''exp'' of None \<Rightarrow> None | Some exp \<Rightarrow>
       (case string_field ms ''jti'' of None \<Rightarrow> None | Some jti \<Rightarrow>
        (case int_field ms ''iat'' of None \<Rightarrow> None | Some iat \<Rightarrow>
         (case string_field ms ''iss'' of None \<Rightarrow> None | Some iss \<Rightarrow>
          (case int_field ms ''nbf'' of None \<Rightarrow> None | Some nbf \<Rightarrow>
           (case string_field ms ''sub'' of None \<Rightarrow> None | Some sub \<Rightarrow>
              Some \<lparr>Audience = aud, ExpiresAt = exp, Id = jti, IssuedAt = iat, Issuer = iss,
                    NotBefore = nbf, Subject = sub\<rparr>)))))))"

definition HS512_Parse :: "string \<Rightarrow> string \<Rightarrow> string + StandardClaims" where
  "HS512_Parse tokenString key =
     (case split_dot tokenString of
        [h, c, sg] \<Rightarrow>
          (case Option.bind (DecodeSegment h) parse_object of
             None \<Rightarrow> Inl ''token is malformed''
           | Some header \<Rightarrow>
               (case Option.bind (Option.bind (DecodeSegment c) parse_object) StandardClaims_of of
                  None \<Rightarrow> Inl ''token is malformed''
                | Some claims \<Rightarrow>
                    if map_of header ''alg'' \<noteq> Some (JString ''HS512'') then
                      Inl ''signing method (alg) is unavailable.''
                    else if base64url_decode sg =
                        Some (HMAC_SHA512 (map of_char key) (map of_char (h @ ''.'' @ c)))
                    then Inr claims
                    else Inl ''signature is invalid''))
      | _ \<Rightarrow> Inl ''token contains an invalid number of segments'')"

text \<open>
  \<open>utf8.ValidString\<close>, and a string with every byte that is not part of a well-formed
  sequence replaced by U+FFFD, as the JSON encoder and decoder of Go coerce it.
\<close>

fun ValidString :: "string \<Rightarrow> bool" where
  "ValidString [] = True"
| "ValidString (c # cs) =
     (if (of_char c :: nat) < 0x80 then ValidString cs
      else
        (let w = rune_width (map of_char (c # cs)) in
         if w = 0 then False else ValidString (drop (w - 1) cs)))"

fun ToValidUTF8 :: "string \<Rightarrow> string" where
  "ToValidUTF8 [] = []"
| "ToValidUTF8 (c # cs) =
     (if (of_char c :: nat) < 0x80 then c # ToValidUTF8 cs
      else
        (let w = rune_width (map of_char (c # cs)) in
         if w = 0 then [CHR 0xEF, CHR 0xBF, CHR 0xBD] @ ToValidUTF8 cs
         else take w (c # cs) @ ToValidUTF8 (drop (w - 1) cs)))"

subsection \<open>The two renderings\<close>

text \<open>Lines 70 to 77.\<close>

definition PrometheusConfig_String :: "env \<Rightarrow> PrometheusConfig \<Rightarrow> string" where
  "PrometheusConfig_String E c =
     (case yaml_Marshal E c of
        Inl err \<Rightarrow> ''error creating config string: '' @ err
      | Inr b \<Rightarrow> Colorize E ''yaml'' b)"

text \<open>
  Lines 79 to 84: \<open>c.ScrapeConfigs[0]\<close> is marshalled, and \<open>probe.NewError\<close> of a \<open>nil\<close>
  error is \<open>nil\<close>.
\<close>

definition PrometheusConfig_JSON ::
  "env \<Rightarrow> PrometheusConfig \<Rightarrow> process \<Rightarrow> string outcome \<times> process" where
  "PrometheusConfig_JSON E c p =
     (case ScrapeConfigs c of
        [] \<Rightarrow> (Panicked index_out_of_range, p)
      | sc # scs \<Rightarrow>
          (case MarshalIndent_ScrapeConfig E sc of
             Inl e \<Rightarrow>
               then_do (fatalIf (Some e) ''Unable to marshal into JSON.'' p)
                 (\<lambda>u p'. (Return [], p'))
           | Inr jsonMessageBytes \<Rightarrow>
               then_do (fatalIf None ''Unable to marshal into JSON.'' p)
                 (\<lambda>u p'. (Return jsonMessageBytes, p'))))"

text \<open>Lines 100 to 105.\<close>

definition StatConfig_JSON :: "env \<Rightarrow> StatConfig \<Rightarrow> process \<Rightarrow> string outcome \<times> process" where
  "StatConfig_JSON E t p =
     (case MarshalIndent_Targets E (Targets t) of
        Inl e \<Rightarrow>
          then_do (fatalIf (Some e) ''Unable to marshal into JSON.'' p)
            (\<lambda>u p'. (Return [], p'))
      | Inr jsonMessageBytes \<Rightarrow>
          then_do (fatalIf None ''Unable to marshal into JSON.'' p)
            (\<lambda>u p'. (Return jsonMessageBytes, p')))"

text \<open>
  Modelled from the spec: \<open>printMsg\<close> is defined elsewhere in package \<open>cmd\<close>.  The spec has
  the rendered document written to the output in one of two formats, selected by the
  caller-configured output mode.
\<close>

definition printMsg :: "env \<Rightarrow> PrometheusConfig \<Rightarrow> process \<Rightarrow> unit outcome \<times> process" where
  "printMsg E msg p =
     (if globalJSON E then
        then_do (PrometheusConfig_JSON E msg p)
          (\<lambda>text p'. (Return (), p'\<lparr>printed := printed p' @ [text]\<rparr>))
      else (Return (), p\<lparr>printed := printed p @ [PrometheusConfig_String E msg]\<rparr>))"

subsection \<open>The structured text\<close>

text \<open>
  Modelled from the spec: the YAML serializer behind \<open>yaml.Marshal\<close> is not part of the
  sources.  The spec has the structured text be a mapping with key \<open>scrape_configs\<close>, a
  sequence of entries with keys \<open>job_name\<close>, \<open>bearer_token\<close>, \<open>metrics_path\<close>, \<open>scheme\<close>
  and \<open>static_configs\<close>, itself a sequence of entries with key \<open>targets\<close>, a flow-style
  sequence of hostnames, and has it hold the field values verbatim.  The keys, and the
  fields left out when empty, follow the \<open>yaml\<close> struct tags of lines 67, 88 and 109 to 113.
\<close>

definition yaml_StatConfig :: "StatConfig \<Rightarrow> string" where
  "yaml_StatConfig st = ''  - targets: ['' @ join '', '' (Targets st) @ '']'' @ [CHR 0x0A]"

definition yaml_ScrapeConfig :: "ScrapeConfig \<Rightarrow> string" where
  "yaml_ScrapeConfig sc =
     ''- job_name: '' @ JobName sc @ [CHR 0x0A]
     @ ''  bearer_token: '' @ BearerToken sc @ [CHR 0x0A]
     @ (if MetricsPath sc = [] then [] else ''  metrics_path: '' @ MetricsPath sc @ [CHR 0x0A])
     @ (if Scheme sc = [] then [] else ''  scheme: '' @ Scheme sc @ [CHR 0x0A])
     @ (if StaticConfigs sc = [] then []
        else ''  static_configs:'' @ [CHR 0x0A] @ concat (map yaml_StatConfig (StaticConfigs sc)))"

definition structured_text :: "PrometheusConfig \<Rightarrow> string + string" where
  "structured_text c =
     Inr (if ScrapeConfigs c = [] then ''{}'' @ [CHR 0x0A]
          else ''scrape_configs:'' @ [CHR 0x0A] @ concat (map yaml_ScrapeConfig (ScrapeConfigs c)))"

text \<open>
  Modelled from the spec: the colorizer behind \<open>console.Colorize\<close> is not part of the
  sources.  The spec has the text optionally colorized for terminal display: it is left as
  it is, or set between the two escape sequences of the colour configured for the tag.
\<close>

definition console_Colorize :: "(string \<times> string) option \<Rightarrow> string \<Rightarrow> string \<Rightarrow> string" where
  "console_Colorize colour tag text =
     (case colour of None \<Rightarrow> text | Some (on, off) \<Rightarrow> on @ text @ off)"

subsection \<open>The credential\<close>

text \<open>
  A \<open>time.Time\<close> is counted in nanoseconds since the Unix epoch and a \<open>time.Duration\<close> in
  nanoseconds, both as integers (the clock's readings are centuries away from the ends of
  Go's range); \<open>Unix()\<close> is the number of whole seconds.
\<close>

definition Hour :: int where
  "Hour = 60 * 60 * 1000000000"

definition defaultPrometheusJWTExpiry :: int where
  "defaultPrometheusJWTExpiry = 100 * 365 * 24 * Hour"

definition Add :: "int \<Rightarrow> int \<Rightarrow> int" where
  "Add t d = t + d"

definition Unix :: "int \<Rightarrow> int" where
  "Unix t = t div 1000000000"

text \<open>
  Lines 174 to 180, with the clock's reading and the validity as arguments: the command
  passes \<open>UTCNow()\<close> and \<open>defaultPrometheusJWTExpiry\<close>.  The fields the literal leaves out
  hold zero values.
\<close>

definition mint ::
  "(Token \<Rightarrow> string \<Rightarrow> string + string) \<Rightarrow> string \<Rightarrow> string \<Rightarrow> int \<Rightarrow> int \<Rightarrow> string + string" where
  "mint sign accountIdentity secret issuedAt validity =
     (let jwt = NewWithClaims SigningMethodHS512
            \<lparr>Audience = [], ExpiresAt = Unix (Add issuedAt validity), Id = [], IssuedAt = 0,
             Issuer = ''prometheus'', NotBefore = 0, Subject = accountIdentity\<rparr>
      in sign jwt secret)"

subsection \<open>The command\<close>

text \<open>\<open>Args.Get(n)\<close> of the command-line library: the empty string when there is no such argument.\<close>

definition Args_Get :: "string list \<Rightarrow> nat \<Rightarrow> string" where
  "Args_Get args n = (if n < length args then args ! n else [])"

text \<open>
  Modelled from the spec: \<open>errInvalidAlias\<close> and \<open>errInvalidAliasedURL\<close> are defined
  elsewhere in package \<open>cmd\<close>.  The spec has an invalid and an unknown alias be
  configuration errors: the two functions make these errors, never \<open>nil\<close>.
\<close>

definition errInvalidAlias :: "string \<Rightarrow> string" where
  "errInvalidAlias alias = ''invalid alias '' @ alias"

definition errInvalidAliasedURL :: "string \<Rightarrow> string" where
  "errInvalidAliasedURL alias = ''no such alias '' @ alias"

text \<open>
  Lines 148 to 152: \<open>cli.ShowCommandHelpAndExit(ctx, "generate", 1)\<close> writes the usage text
  and ends the process with the status given.
\<close>

definition checkAdminPrometheusSyntax :: "env \<Rightarrow> process \<Rightarrow> unit outcome \<times> process" where
  "checkAdminPrometheusSyntax E p =
     (if length (Args E) \<noteq> 1 then (Exited 1, p\<lparr>diagnostics := diagnostics p @ [''USAGE'']\<rparr>)
      else (Return (), p))"

text \<open>
  Lines 154 to 207.  The result is the error the function returns (\<open>None\<close> for \<open>nil\<close>).
  Both branches of line 191 make the same three assignments and print the variable they
  assigned to: they are one call of \<^const>\<open>assemble\<close> on the selected template.
\<close>

definition generatePrometheusConfig :: "env \<Rightarrow> process \<Rightarrow> string option outcome \<times> process" where
  "generatePrometheusConfig E p0 =
     (let alias = cleanAlias E (Args_Get (Args E) 0) in
      then_do
        (if \<not> isValidAlias E alias then fatalIf (Some (errInvalidAlias alias)) ''Invalid alias.'' p0
         else (Return (), p0))
        (\<lambda>u0 p1.
           case mustGetHostConfig E alias of
             None \<Rightarrow>
               then_do
                 (fatalIf (Some (errInvalidAliasedURL alias))
                    (''No such alias '' @ [CHR 0x60] @ alias @ [CHR 0x60] @ '' found.'') p1)
                 (\<lambda>u1 p. (Return None, p))
           | Some hostConfig \<Rightarrow>
               (case url_Parse E (URL hostConfig) of
                  Inl err \<Rightarrow> (Return (Some err), p1)
                | Inr u \<Rightarrow>
                    (case mint (SignedString E) (AccessKey hostConfig) (SecretKey hostConfig)
                            (UTCNow E) defaultPrometheusJWTExpiry of
                       Inl err \<Rightarrow> (Return (Some err), p1)
                     | Inr token \<Rightarrow>
                         then_do
                           (fatalIf (newAdminClient E alias)
                              ''Unable to initialize admin connection.'' p1)
                           (\<lambda>u2 p2.
                              then_do
                                (case ServerInfo E alias of
                                   Inl e \<Rightarrow>
                                     then_do (fatalIf (Some e) ''Failed to get server info.'' p2)
                                       (\<lambda>u3 p. (Return \<lparr>Servers = []\<rparr>, p))
                                 | Inr info \<Rightarrow> (Return info, p2))
                                (\<lambda>info p3.
                                   case Servers info of
                                     [] \<Rightarrow> (Panicked index_out_of_range, p3)
                                   | s # ss \<Rightarrow>
                                       (case assemble (selectTemplate (Version s)) token
                                               (url_Scheme u) (url_Host u) (vars p3) of
                                          Return (c, g) \<Rightarrow>
                                            then_do (printMsg E c (p3\<lparr>vars := g\<rparr>))
                                              (\<lambda>u4 p. (Return None, p))
                                        | Exited n \<Rightarrow> (Exited n, p3)
                                        | Panicked m \<Rightarrow> (Panicked m, p3))))))))"

text \<open>
  Lines 210 to 221: the handler of the sub-command.  (\<open>console.SetColor\<close> only configures
  the colorizer.)  Whatever \<^const>\<open>generatePrometheusConfig\<close> returns, the handler returns
  \<open>nil\<close>.
\<close>

definition mainAdminPrometheusGenerate :: "env \<Rightarrow> process \<Rightarrow> string option outcome \<times> process" where
  "mainAdminPrometheusGenerate E p =
     then_do (checkAdminPrometheusSyntax E p)
       (\<lambda>u p1.
          then_do (generatePrometheusConfig E p1)
            (\<lambda>err p2. if err \<noteq> None then (Return None, p2) else (Return None, p2)))"

text \<open>
  Modelled from the spec: the program's \<open>main\<close>, which runs the handler, is not part of
  the sources.  The spec has no error code beyond the exit status of the process, zero on
  normal completion and non-zero on failure: the status is the one given to \<open>os.Exit\<close>,
  2 after a panic (the Go runtime's), and when the handler returns, 0 for \<open>nil\<close> and 1 for
  an error.
\<close>

definition exit_status :: "string option outcome \<Rightarrow> nat" where
  "exit_status r =
     (case r of
        Return None \<Rightarrow> 0
      | Return (Some err) \<Rightarrow> 1
      | Exited n \<Rightarrow> n
      | Panicked m \<Rightarrow> 2)"

subsection \<open>An example run\<close>

text \<open>
  An environment for the alias \<open>play\<close>: the server reports a version after the cutover,
  the token is signed by the library's HS512 method, and the output goes to a terminal
  with colours off, so that the marshaller writes plain indented JSON and the structured
  text is printed without colour.
\<close>

definition play_env :: env where
  "play_env =
     \<lparr>Args = [''play''],
      cleanAlias = (\<lambda>a. a),
      isValidAlias = (\<lambda>a. a \<noteq> []),
      mustGetHostConfig =
        (\<lambda>a. if a = ''play''
              then Some \<lparr>URL = ''https://play.min.io:9000'', AccessKey = ''minioadmin'',
                         SecretKey = ''minioadmin''\<rparr>
              else None),
      url_Parse =
        (\<lambda>s. if s = ''https://play.min.io:9000''
              then Inr \<lparr>url_Scheme = ''https'', url_Host = ''play.min.io:9000''\<rparr>
              else Inl ''parse: invalid URL''),
      UTCNow = 1613606600123456789,
      SignedString = HS512_SignedString,
      newAdminClient = (\<lambda>a. None),
      ServerInfo = (\<lambda>a. Inr \<lparr>Servers = [\<lparr>Version = ''2022-01-01T00-00-00Z''\<rparr>]\<rparr>),
      globalJSON = False,
      MarshalIndent_ScrapeConfig = (\<lambda>sc. Inr (json_ScrapeConfig 0 sc)),
      MarshalIndent_Targets = (\<lambda>ts. Inr (json_Targets 0 ts)),
      yaml_Marshal = structured_text,
      Colorize = console_Colorize None\<rparr>"

text \<open>The same alias with an empty secret key stored for it.\<close>

definition empty_secret_env :: env where
  "empty_secret_env =
     play_env\<lparr>mustGetHostConfig :=
       (\<lambda>a. if a = ''play''
             then Some \<lparr>URL = ''https://play.min.io:9000'', AccessKey = ''minioadmin'',
                        SecretKey = []\<rparr>
             else None)\<rparr>"

definition play_token :: Token where
  "play_token =
     NewWithClaims SigningMethodHS512
       \<lparr>Audience = [], ExpiresAt = 4767206600, Id = [], IssuedAt = 0,
        Issuer = ''prometheus'', NotBefore = 0, Subject = ''minioadmin''\<rparr>"

text \<open>A signer that refuses an empty key, in front of the library's.\<close>

definition refusing_sign :: "Token \<Rightarrow> string \<Rightarrow> string + string" where
  "refusing_sign t key = (if key = [] then Inl ''key is empty'' else HS512_SignedString t key)"

section \<open>Properties\<close>

subsection \<open>Version gate\<close>

lemma string_less_iff: "string_less a b \<longleftrightarrow> a < b"
  by (induction a b rule: string_less.induct) (auto simp: less_char_def)

lemma gate_examples:
  "selectTemplate ''2020-01-01T00-00-00Z'' = Legacy"
  "selectTemplate ''2022-01-01T00-00-00Z'' = Current"
  "selectTemplate ''2021-01-30T00-20-58'' = Legacy"
  "selectTemplate [] = Legacy"
  by (simp_all add: selectTemplate_def cutover_def)

subsection \<open>What the assembler makes of the templates\<close>

lemma template_init_filled: "template_init t = filled t [] [] []"
  by (cases t) (simp_all add: template_init_def filled_def template_path_def
      legacyConfig_init_def defaultConfig_init_def)

lemma fill_filled: "fill token scheme host (filled t a b c) = Return (filled t token scheme host)"
  by (simp add: fill_def filled_def)

lemma assemble_filled:
  "assemble t token scheme host
     \<lparr>defaultConfig = filled Current a b c, legacyConfig = filled Legacy d e f\<rparr> =
     Return (filled t token scheme host,
       (case t of
          Legacy \<Rightarrow>
            \<lparr>defaultConfig = filled Current a b c, legacyConfig = filled Legacy token scheme host\<rparr>
        | Current \<Rightarrow>
            \<lparr>defaultConfig = filled Current token scheme host, legacyConfig = filled Legacy d e f\<rparr>))"
  by (cases t) (simp_all add: assemble_def fill_filled)

lemma earlier_filled:
  "\<exists>a' b' c' d' e' f'.
     earlier calls \<lparr>defaultConfig = filled Current a b c, legacyConfig = filled Legacy d e f\<rparr> =
       Return \<lparr>defaultConfig = filled Current a' b' c', legacyConfig = filled Legacy d' e' f'\<rparr>"
proof (induction calls arbitrary: a b c d e f)
  case Nil
  show ?case by auto
next
  case (Cons call calls)
  obtain t token scheme host where call: "call = (t, token, scheme, host)"
    by (cases call) auto
  show ?case
  proof (cases t)
    case Legacy
    with call Cons.IH [of a b c token scheme host] show ?thesis
      by (simp add: assemble_filled)
  next
    case Current
    with call Cons.IH [of token scheme host d e f] show ?thesis
      by (simp add: assemble_filled)
  qed
qed

lemma globals_init_filled:
  "globals_init = \<lparr>defaultConfig = filled Current [] [] [], legacyConfig = filled Legacy [] [] []\<rparr>"
  using template_init_filled [of Current] template_init_filled [of Legacy]
  by (simp add: globals_init_def template_init_def)

lemma earlier_init:
  "\<exists>a b c d e f. earlier calls globals_init =
     Return \<lparr>defaultConfig = filled Current a b c, legacyConfig = filled Legacy d e f\<rparr>"
  using earlier_filled [of calls "[]" "[]" "[]" "[]" "[]" "[]"]
  by (simp add: globals_init_filled)

lemma assemble_after_earlier:
  "\<exists>g g'. earlier calls globals_init = Return g \<and>
     assemble t token scheme host g = Return (filled t token scheme host, g')"
proof -
  obtain a b c d e f where
    "earlier calls globals_init =
       Return \<lparr>defaultConfig = filled Current a b c, legacyConfig = filled Legacy d e f\<rparr>"
    using earlier_init by blast
  then show ?thesis
    by (simp add: assemble_filled)
qed

text \<open>
  C1.  The gate selects the legacy template exactly when the reported version is lexically
  smaller than the cutover \<open>2021-01-30T00-20-58Z\<close> (the order of \<^typ>\<open>string\<close> here is
  the lexicographic order of the byte values), and the current template otherwise, so at
  the cutover itself.
\<close>

theorem version_gate:
  "(selectTemplate v = Legacy \<longleftrightarrow> v < ''2021-01-30T00-20-58Z'') \<and>
   (selectTemplate v = Current \<longleftrightarrow> ''2021-01-30T00-20-58Z'' \<le> v) \<and>
   selectTemplate ''2021-01-30T00-20-58Z'' = Current"
  by (auto simp: selectTemplate_def string_less_iff cutover_def)

subsection \<open>The assembler\<close>

text \<open>
  C6.  Whatever was assembled earlier in the process, the assembled document is the
  template's constant with the bearer token, the scheme and the target host set, and
  nothing else changed: the job name and the metrics path are the template's.
\<close>

theorem assemble_frame:
  "\<exists>g g' sc.
     earlier calls globals_init = Return g \<and>
     ScrapeConfigs (template_init t) = [sc] \<and>
     JobName sc = ''minio-job'' \<and>
     MetricsPath sc = template_path t \<and>
     assemble t token scheme host g =
       Return (\<lparr>ScrapeConfigs =
                  [sc\<lparr>BearerToken := token, Scheme := scheme,
                      StaticConfigs := [\<lparr>Targets = [host]\<rparr>]\<rparr>]\<rparr>, g')"
proof -
  obtain g g' where
    "earlier calls globals_init = Return g"
    "assemble t token scheme host g = Return (filled t token scheme host, g')"
    using assemble_after_earlier by blast
  then show ?thesis
    by (cases t) (simp_all add: template_init_def legacyConfig_init_def defaultConfig_init_def
        filled_def template_path_def defaultJobName_def)
qed

text \<open>
  C7.  The two template constants: job name \<open>minio-job\<close> with metrics path
  \<open>/minio/prometheus/metrics\<close> (legacy) and \<open>/minio/v2/metrics/cluster\<close> (current), each
  with one scrape target whose token and scheme are empty and whose one target host is
  empty; and the metrics path of every assembled document is one of the two paths.
\<close>

theorem templates:
  "legacyConfig_init =
     \<lparr>ScrapeConfigs =
        [\<lparr>JobName = ''minio-job'', BearerToken = '''', MetricsPath = ''/minio/prometheus/metrics'',
          Scheme = '''', StaticConfigs = [\<lparr>Targets = ['''']\<rparr>]\<rparr>]\<rparr> \<and>
   defaultConfig_init =
     \<lparr>ScrapeConfigs =
        [\<lparr>JobName = ''minio-job'', BearerToken = '''', MetricsPath = ''/minio/v2/metrics/cluster'',
          Scheme = '''', StaticConfigs = [\<lparr>Targets = ['''']\<rparr>]\<rparr>]\<rparr> \<and>
   template_init Legacy = legacyConfig_init \<and>
   template_init Current = defaultConfig_init \<and>
   (\<exists>g g' d.
      earlier calls globals_init = Return g \<and>
      assemble t token scheme host g = Return (d, g') \<and>
      map MetricsPath (ScrapeConfigs d) = [template_path t] \<and>
      template_path t \<in> {''/minio/prometheus/metrics'', ''/minio/v2/metrics/cluster''})"
proof -
  obtain g g' where
    "earlier calls globals_init = Return g"
    "assemble t token scheme host g = Return (filled t token scheme host, g')"
    using assemble_after_earlier by blast
  moreover have "map MetricsPath (ScrapeConfigs (filled t token scheme host)) = [template_path t]"
    by (simp add: filled_def)
  moreover have "template_path t \<in> {''/minio/prometheus/metrics'', ''/minio/v2/metrics/cluster''}"
    by (cases t) (simp_all add: template_path_def legacyMetricsPath_def defaultMetricsPath_def)
  ultimately show ?thesis
    by (simp add: template_init_def legacyConfig_init_def defaultConfig_init_def
        defaultJobName_def legacyMetricsPath_def defaultMetricsPath_def)
qed

text \<open>
  C9.  The document the assembler yields is a function of the template, the credential,
  the scheme and the host alone: after any two histories of earlier assemblies the same
  inputs give the same document, and so does assembling again right away.  (The assembler
  writes into the template's variable; the document handed to the printer does not depend
  on what the variable held.)
\<close>

theorem assemble_deterministic:
  "\<exists>g1 g1' g2 g2' d.
     earlier calls1 globals_init = Return g1 \<and>
     earlier calls2 globals_init = Return g2 \<and>
     assemble t token scheme host g1 = Return (d, g1') \<and>
     assemble t token scheme host g2 = Return (d, g2') \<and>
     assemble t token scheme host g1' = Return (d, g1')"
proof -
  obtain a b c d e f where 1:
    "earlier calls1 globals_init =
       Return \<lparr>defaultConfig = filled Current a b c, legacyConfig = filled Legacy d e f\<rparr>"
    using earlier_init by blast
  obtain g2 g2' where 2:
    "earlier calls2 globals_init = Return g2"
    "assemble t token scheme host g2 = Return (filled t token scheme host, g2')"
    using assemble_after_earlier by blast
  show ?thesis
  proof (cases t)
    case Legacy
    with 1 2 show ?thesis
      by (simp add: assemble_filled)
  next
    case Current
    with 1 2 show ?thesis
      by (simp add: assemble_filled)
  qed
qed

subsection \<open>The JSON rendering\<close>

lemma json_string_play: "json_string ''play.min.io:9000'' = CHR 0x22 # ''play.min.io:9000'' @ [CHR 0x22]"
  by (simp add: json_string_def dquote_def htmlSafe_def)

lemma json_ScrapeConfig_single:
  "json_ScrapeConfig 0
     \<lparr>JobName = j, BearerToken = b, MetricsPath = m, Scheme = s, StaticConfigs = [\<lparr>Targets = [h]\<rparr>]\<rparr> =
   ''{'' @ [CHR 0x0A] @
   '' '' @ [CHR 0x22] @ ''jobName'' @ [CHR 0x22] @ '': '' @ json_string j @ '','' @ [CHR 0x0A] @
   '' '' @ [CHR 0x22] @ ''bearerToken'' @ [CHR 0x22] @ '': '' @ json_string b @ '','' @ [CHR 0x0A] @
   '' '' @ [CHR 0x22] @ ''metricsPath'' @ [CHR 0x22] @ '': '' @ json_string m @ '','' @ [CHR 0x0A] @
   '' '' @ [CHR 0x22] @ ''scheme'' @ [CHR 0x22] @ '': '' @ json_string s @ '','' @ [CHR 0x0A] @
   '' '' @ [CHR 0x22] @ ''staticConfigs'' @ [CHR 0x22] @ '': ['' @ [CHR 0x0A] @
   ''  {'' @ [CHR 0x0A] @
   ''   '' @ [CHR 0x22] @ ''targets'' @ [CHR 0x22] @ '': ['' @ [CHR 0x0A] @
   ''    '' @ json_string h @ [CHR 0x0A] @
   ''   ]'' @ [CHR 0x0A] @
   ''  }'' @ [CHR 0x0A] @
   '' ]'' @ [CHR 0x0A] @
   ''}''"
  by (simp add: json_ScrapeConfig_def json_StatConfig_def json_Targets_def json_object_def
      json_array_def newline_def dquote_def numeral_2_eq_2 numeral_3_eq_3 eval_nat_numeral)

text \<open>
  On a terminal with colours off, the JSON rendering of the document with the one target
  host \<open>play.min.io:9000\<close> is not the text \<open>[\n "play.min.io:9000"\n]\<close> of the target list.
\<close>

theorem json_rendering_counterexample:
  "PrometheusConfig_JSON play_env (filled Current ''T'' ''http'' ''play.min.io:9000'') process_init \<noteq>
     (Return (''['' @ [CHR 0x0A] @ '' '' @ [CHR 0x22] @ ''play.min.io:9000'' @ [CHR 0x22, CHR 0x0A] @ '']''),
      process_init)"
  by (simp add: PrometheusConfig_JSON_def filled_def play_env_def then_do_def
      fatalIf_def json_ScrapeConfig_single)

text \<open>
  C3, as amended.  The JSON rendering is what the marshaller writes for the first scrape
  config, as a whole and whatever scrape configs follow it, and a marshaller error is
  fatal.  For every assembled document that is the scrape config with its job name, bearer
  token, metrics path, scheme and static configs, not its target list alone: where the
  marshaller writes plain JSON indented by one space (a terminal with colours off), the
  rendering is exactly the object below.  The target list alone is what \<open>StatConfig.JSON\<close>
  renders, and for the one target \<open>play.min.io:9000\<close> that rendering is there exactly
  \<open>[\n "play.min.io:9000"\n]\<close>.
\<close>

theorem json_rendering:
  "PrometheusConfig_JSON E \<lparr>ScrapeConfigs = sc # scs\<rparr> p =
     (case MarshalIndent_ScrapeConfig E sc of
        Inl e \<Rightarrow> (Exited 1, p\<lparr>diagnostics := diagnostics p @ [''Unable to marshal into JSON. '' @ e]\<rparr>)
      | Inr b \<Rightarrow> (Return b, p)) \<and>
   (\<exists>g g' d first.
      earlier calls globals_init = Return g \<and>
      assemble t token scheme host g = Return (d, g') \<and>
      ScrapeConfigs d = [first] \<and>
      first = \<lparr>JobName = ''minio-job'', BearerToken = token, MetricsPath = template_path t,
               Scheme = scheme, StaticConfigs = [\<lparr>Targets = [host]\<rparr>]\<rparr> \<and>
      (MarshalIndent_ScrapeConfig E first = Inr (json_ScrapeConfig 0 first) \<longrightarrow>
       PrometheusConfig_JSON E d p =
        (Return
           (''{'' @ [CHR 0x0A] @
            '' '' @ [CHR 0x22] @ ''jobName'' @ [CHR 0x22] @ '': '' @ json_string ''minio-job'' @ '','' @ [CHR 0x0A] @
            '' '' @ [CHR 0x22] @ ''bearerToken'' @ [CHR 0x22] @ '': '' @ json_string token @ '','' @ [CHR 0x0A] @
            '' '' @ [CHR 0x22] @ ''metricsPath'' @ [CHR 0x22] @ '': '' @ json_string (template_path t) @ '','' @ [CHR 0x0A] @
            '' '' @ [CHR 0x22] @ ''scheme'' @ [CHR 0x22] @ '': '' @ json_string scheme @ '','' @ [CHR 0x0A] @
            '' '' @ [CHR 0x22] @ ''staticConfigs'' @ [CHR 0x22] @ '': ['' @ [CHR 0x0A] @
            ''  {'' @ [CHR 0x0A] @
            ''   '' @ [CHR 0x22] @ ''targets'' @ [CHR 0x22] @ '': ['' @ [CHR 0x0A] @
            ''    '' @ json_string host @ [CHR 0x0A] @
            ''   ]'' @ [CHR 0x0A] @
            ''  }'' @ [CHR 0x0A] @
            '' ]'' @ [CHR 0x0A] @
            ''}''), p))) \<and>
   (MarshalIndent_Targets E [''play.min.io:9000''] = Inr (json_Targets 0 [''play.min.io:9000'']) \<longrightarrow>
    StatConfig_JSON E \<lparr>Targets = [''play.min.io:9000'']\<rparr> p =
     (Return (''['' @ [CHR 0x0A] @ '' '' @ [CHR 0x22] @ ''play.min.io:9000'' @ [CHR 0x22, CHR 0x0A] @ '']''), p))"
proof -
  let ?first = "\<lparr>JobName = ''minio-job'', BearerToken = token, MetricsPath = template_path t,
               Scheme = scheme, StaticConfigs = [\<lparr>Targets = [host]\<rparr>]\<rparr>"
  obtain g g' where
    "earlier calls globals_init = Return g"
    "assemble t token scheme host g = Return (filled t token scheme host, g')"
    using assemble_after_earlier by blast
  moreover have "ScrapeConfigs (filled t token scheme host) = [?first]"
    by (simp add: filled_def defaultJobName_def)
  moreover have "MarshalIndent_ScrapeConfig E ?first = Inr (json_ScrapeConfig 0 ?first) \<longrightarrow>
      PrometheusConfig_JSON E (filled t token scheme host) p = (Return (json_ScrapeConfig 0 ?first), p)"
    by (simp add: PrometheusConfig_JSON_def filled_def then_do_def fatalIf_def defaultJobName_def)
  moreover have "MarshalIndent_Targets E [''play.min.io:9000''] = Inr (json_Targets 0 [''play.min.io:9000'']) \<longrightarrow>
      StatConfig_JSON E \<lparr>Targets = [''play.min.io:9000'']\<rparr> p =
     (Return (''['' @ [CHR 0x0A] @ '' '' @ [CHR 0x22] @ ''play.min.io:9000'' @ [CHR 0x22, CHR 0x0A] @ '']''), p)"
    by (simp add: StatConfig_JSON_def then_do_def fatalIf_def
        json_Targets_def json_array_def newline_def json_string_play)
  moreover have "PrometheusConfig_JSON E \<lparr>ScrapeConfigs = sc # scs\<rparr> p =
     (case MarshalIndent_ScrapeConfig E sc of
        Inl e \<Rightarrow> (Exited 1, p\<lparr>diagnostics := diagnostics p @ [''Unable to marshal into JSON. '' @ e]\<rparr>)
      | Inr b \<Rightarrow> (Return b, p))"
    by (simp add: PrometheusConfig_JSON_def then_do_def fatalIf_def split: sum.splits)
  ultimately show ?thesis
    unfolding json_ScrapeConfig_single [symmetric, of "''minio-job''" token "template_path t" scheme host]
    by blast
qed

text \<open>
  The example run's environment, a terminal with colours off: the rendering of the spec's
  example document is the whole scrape config, and that of its target list the text of
  the spec's example.
\<close>

theorem json_rendering_witness:
  "PrometheusConfig_JSON play_env (filled Current ''T'' ''http'' ''play.min.io:9000'') process_init =
     (Return
        (''{'' @ [CHR 0x0A] @
         '' '' @ [CHR 0x22] @ ''jobName'' @ [CHR 0x22] @ '': '' @ [CHR 0x22] @ ''minio-job'' @ [CHR 0x22] @ '','' @ [CHR 0x0A] @
         '' '' @ [CHR 0x22] @ ''bearerToken'' @ [CHR 0x22] @ '': '' @ [CHR 0x22] @ ''T'' @ [CHR 0x22] @ '','' @ [CHR 0x0A] @
         '' '' @ [CHR 0x22] @ ''metricsPath'' @ [CHR 0x22] @ '': '' @ [CHR 0x22] @ ''/minio/v2/metrics/cluster'' @ [CHR 0x22] @ '','' @ [CHR 0x0A] @
         '' '' @ [CHR 0x22] @ ''scheme'' @ [CHR 0x22] @ '': '' @ [CHR 0x22] @ ''http'' @ [CHR 0x22] @ '','' @ [CHR 0x0A] @
         '' '' @ [CHR 0x22] @ ''staticConfigs'' @ [CHR 0x22] @ '': ['' @ [CHR 0x0A] @
         ''  {'' @ [CHR 0x0A] @
         ''   '' @ [CHR 0x22] @ ''targets'' @ [CHR 0x22] @ '': ['' @ [CHR 0x0A] @
         ''    '' @ [CHR 0x22] @ ''play.min.io:9000'' @ [CHR 0x22] @ [CHR 0x0A] @
         ''   ]'' @ [CHR 0x0A] @
         ''  }'' @ [CHR 0x0A] @
         '' ]'' @ [CHR 0x0A] @
         ''}''), process_init) \<and>
   StatConfig_JSON play_env \<lparr>Targets = [''play.min.io:9000'']\<rparr> process_init =
     (Return (''['' @ [CHR 0x0A] @ '' '' @ [CHR 0x22] @ ''play.min.io:9000'' @ [CHR 0x22, CHR 0x0A] @ '']''),
      process_init)"
proof -
  let ?first = "\<lparr>JobName = ''minio-job'', BearerToken = ''T'', MetricsPath = template_path Current,
               Scheme = ''http'', StaticConfigs = [\<lparr>Targets = [''play.min.io:9000'']\<rparr>]\<rparr>"
  have marshaller:
    "MarshalIndent_ScrapeConfig play_env ?first = Inr (json_ScrapeConfig 0 ?first)"
    "MarshalIndent_Targets play_env [''play.min.io:9000''] = Inr (json_Targets 0 [''play.min.io:9000''])"
    by (simp_all add: play_env_def)
  have assembled: "assemble Current ''T'' ''http'' ''play.min.io:9000'' globals_init =
      Return (filled Current ''T'' ''http'' ''play.min.io:9000'',
        \<lparr>defaultConfig = filled Current ''T'' ''http'' ''play.min.io:9000'',
         legacyConfig = filled Legacy [] [] []\<rparr>)"
    by (simp add: globals_init_filled assemble_filled)
  from json_rendering
    [of play_env ?first "[]" process_init "[]" Current "''T''" "''http''" "''play.min.io:9000''"]
    marshaller assembled
  show ?thesis
    by (simp add: json_string_def dquote_def htmlSafe_def template_path_def defaultMetricsPath_def)
qed

text \<open>
  C10.  On a document without scrape configs the JSON rendering indexes the first element
  and panics (index out of range), also when the printer calls it; the structured
  rendering returns a text for every document, whatever the serializer answers.
\<close>

theorem json_renderer_partial:
  "PrometheusConfig_JSON E \<lparr>ScrapeConfigs = []\<rparr> p =
     (Panicked ''runtime error: index out of range [0] with length 0'', p) \<and>
   printMsg (E\<lparr>globalJSON := True\<rparr>) \<lparr>ScrapeConfigs = []\<rparr> p =
     (Panicked ''runtime error: index out of range [0] with length 0'', p) \<and>
   printMsg (E\<lparr>globalJSON := False\<rparr>) c p =
     (Return (), p\<lparr>printed := printed p @ [PrometheusConfig_String E c]\<rparr>)"
  by (simp add: PrometheusConfig_JSON_def printMsg_def then_do_def index_out_of_range_def
      PrometheusConfig_String_def split: sum.splits)

subsection \<open>The structured rendering\<close>

lemma sublist_join: "h \<in> set hs \<Longrightarrow> sublist h (join sep hs)"
proof (induction sep hs rule: join.induct)
  case (1 sep)
  then show ?case by simp
next
  case (2 sep x)
  then show ?case by simp
next
  case (3 sep x y ys)
  show ?case
  proof (cases "h = x")
    case True
    then show ?thesis by simp
  next
    case False
    with 3 have "sublist h (join sep (y # ys))" by simp
    then show ?thesis
      by (metis join.simps(3) sublist_append append_assoc)
  qed
qed

lemma sublist_concat_map: "x \<in> set xs \<Longrightarrow> sublist (f x) (concat (map f xs))"
  by (induction xs) (auto simp: sublist_append)

lemma sublist_in: "sublist v w \<Longrightarrow> sublist v (a @ w @ b)"
  unfolding sublist_def by (metis append.assoc)

lemma sublist_appendR: "sublist v w \<Longrightarrow> sublist v (a @ w)"
  using sublist_in [of v w a "[]"] by simp

lemma sublist_appendL: "sublist v w \<Longrightarrow> sublist v (w @ b)"
  using sublist_in [of v w "[]" b] by simp

lemma sublist_optional: "sublist v (if v = [] then [] else a @ v @ b)"
  by simp

lemma sublist_if_nonempty:
  "xs \<noteq> [] \<Longrightarrow> sublist v w \<Longrightarrow> sublist v (if xs = [] then [] else a @ b @ w)"
  by (simp add: sublist_appendR)

lemma sublist_within: "sublist v w \<Longrightarrow> sublist w u \<Longrightarrow> sublist v u"
  unfolding sublist_def by (metis append.assoc)

lemma yaml_ScrapeConfig_values:
  "sublist (JobName sc) (yaml_ScrapeConfig sc)"
  "sublist (BearerToken sc) (yaml_ScrapeConfig sc)"
  "sublist (MetricsPath sc) (yaml_ScrapeConfig sc)"
  "sublist (Scheme sc) (yaml_ScrapeConfig sc)"
  unfolding yaml_ScrapeConfig_def
  by (fast intro: sublist_appendL sublist_appendR sublist_optional sublist_appendI)+

lemma yaml_StatConfig_target: "h \<in> set (Targets st) \<Longrightarrow> sublist h (yaml_StatConfig st)"
  unfolding yaml_StatConfig_def
  by (intro sublist_in sublist_join)

lemma yaml_ScrapeConfig_target:
  assumes "st \<in> set (StaticConfigs sc)" and "h \<in> set (Targets st)"
  shows "sublist h (yaml_ScrapeConfig sc)"
proof -
  have "sublist (yaml_StatConfig st) (concat (map yaml_StatConfig (StaticConfigs sc)))"
    using assms(1) by (rule sublist_concat_map)
  with yaml_StatConfig_target [OF assms(2)]
  have "sublist h (concat (map yaml_StatConfig (StaticConfigs sc)))"
    by (rule sublist_within)
  moreover from assms(1) have "StaticConfigs sc \<noteq> []" by auto
  ultimately have "sublist h
      (if StaticConfigs sc = [] then []
       else ''  static_configs:'' @ [CHR 0x0A] @ concat (map yaml_StatConfig (StaticConfigs sc)))"
    by (rule sublist_if_nonempty [rotated])
  then show ?thesis
    unfolding yaml_ScrapeConfig_def by (intro sublist_appendR)
qed

lemma String_structured:
  "PrometheusConfig_String
     (E\<lparr>yaml_Marshal := structured_text, Colorize := console_Colorize colour\<rparr>) c =
   console_Colorize colour ''yaml''
     (if ScrapeConfigs c = [] then ''{}'' @ [CHR 0x0A]
      else ''scrape_configs:'' @ [CHR 0x0A] @ concat (map yaml_ScrapeConfig (ScrapeConfigs c)))"
  by (simp add: PrometheusConfig_String_def structured_text_def)

lemma sublist_Colorize: "sublist v w \<Longrightarrow> sublist v (console_Colorize colour tag w)"
  by (cases colour) (auto simp: console_Colorize_def intro: sublist_in)

lemma structured_text_contains:
  assumes "sc \<in> set (ScrapeConfigs c)" and "sublist v (yaml_ScrapeConfig sc)"
  shows "sublist v (PrometheusConfig_String
           (E\<lparr>yaml_Marshal := structured_text, Colorize := console_Colorize colour\<rparr>) c)"
proof -
  have "sublist (yaml_ScrapeConfig sc) (concat (map yaml_ScrapeConfig (ScrapeConfigs c)))"
    using assms(1) by (rule sublist_concat_map)
  with assms(2) have "sublist v (concat (map yaml_ScrapeConfig (ScrapeConfigs c)))"
    by (rule sublist_within)
  moreover from assms(1) have "ScrapeConfigs c \<noteq> []" by auto
  ultimately have "sublist v
      (if ScrapeConfigs c = [] then ''{}'' @ [CHR 0x0A]
       else ''scrape_configs:'' @ [CHR 0x0A] @ concat (map yaml_ScrapeConfig (ScrapeConfigs c)))"
    by (simp add: sublist_appendR del: append.simps)
  then show ?thesis
    unfolding String_structured by (rule sublist_Colorize)
qed

text \<open>
  C8.  When the serializer reports an error, the structured rendering is the text
  \<open>error creating config string: \<close> followed by the error, and printing goes on with it;
  otherwise it is the serializer's text, colorized.  With the structured text of the spec
  and a colorizer that sets the text between escape sequences, the rendering holds the
  job name, the bearer token, the metrics path, the scheme and every target host verbatim.
\<close>

theorem structured_rendering:
  "(yaml_Marshal E c = Inl err \<longrightarrow>
      PrometheusConfig_String E c = ''error creating config string: '' @ err \<and>
      printMsg (E\<lparr>globalJSON := False\<rparr>) c p =
        (Return (), p\<lparr>printed := printed p @ [''error creating config string: '' @ err]\<rparr>)) \<and>
   (yaml_Marshal E c = Inr b \<longrightarrow> PrometheusConfig_String E c = Colorize E ''yaml'' b) \<and>
   (\<forall>sc \<in> set (ScrapeConfigs c).
      let out = PrometheusConfig_String
                  (E\<lparr>yaml_Marshal := structured_text, Colorize := console_Colorize colour\<rparr>) c
      in sublist (JobName sc) out \<and> sublist (BearerToken sc) out \<and>
         sublist (MetricsPath sc) out \<and> sublist (Scheme sc) out \<and>
         (\<forall>st \<in> set (StaticConfigs sc). \<forall>h \<in> set (Targets st). sublist h out))"
proof -
  have "PrometheusConfig_String (E\<lparr>globalJSON := False\<rparr>) c = PrometheusConfig_String E c"
    by (simp add: PrometheusConfig_String_def split: sum.splits)
  then have "printMsg (E\<lparr>globalJSON := False\<rparr>) c p =
      (Return (), p\<lparr>printed := printed p @ [PrometheusConfig_String E c]\<rparr>)"
    by (simp add: printMsg_def)
  moreover have "yaml_Marshal E c = Inl err \<longrightarrow>
      PrometheusConfig_String E c = ''error creating config string: '' @ err"
    by (simp add: PrometheusConfig_String_def)
  moreover have "yaml_Marshal E c = Inr b \<longrightarrow> PrometheusConfig_String E c = Colorize E ''yaml'' b"
    by (simp add: PrometheusConfig_String_def)
  ultimately show ?thesis
    unfolding Let_def
    by (auto intro: structured_text_contains yaml_ScrapeConfig_values yaml_ScrapeConfig_target)
qed

text \<open>
  The document of the spec's example: a serializer error is rendered as the error text, and
  the structured text holds the five values.
\<close>

theorem structured_rendering_witness:
  "PrometheusConfig_String (play_env\<lparr>yaml_Marshal := \<lambda>c. Inl ''unsupported''\<rparr>)
     (filled Current ''T'' ''http'' ''play.min.io:9000'') =
     ''error creating config string: unsupported'' \<and>
   sublist ''minio-job'' (PrometheusConfig_String play_env (filled Current ''T'' ''http'' ''play.min.io:9000'')) \<and>
   sublist ''T'' (PrometheusConfig_String play_env (filled Current ''T'' ''http'' ''play.min.io:9000'')) \<and>
   sublist ''/minio/v2/metrics/cluster''
     (PrometheusConfig_String play_env (filled Current ''T'' ''http'' ''play.min.io:9000'')) \<and>
   sublist ''http'' (PrometheusConfig_String play_env (filled Current ''T'' ''http'' ''play.min.io:9000'')) \<and>
   sublist ''play.min.io:9000''
     (PrometheusConfig_String play_env (filled Current ''T'' ''http'' ''play.min.io:9000''))"
proof -
  let ?E = "play_env\<lparr>yaml_Marshal := \<lambda>c. Inl ''unsupported''\<rparr>"
  let ?c = "filled Current ''T'' ''http'' ''play.min.io:9000''"
  have E: "?E\<lparr>yaml_Marshal := structured_text, Colorize := console_Colorize None\<rparr> = play_env"
    by (simp add: play_env_def)
  have m: "yaml_Marshal ?E ?c = Inl ''unsupported''"
    by simp
  have c: "ScrapeConfigs ?c =
      [\<lparr>JobName = ''minio-job'', BearerToken = ''T'', MetricsPath = ''/minio/v2/metrics/cluster'',
        Scheme = ''http'', StaticConfigs = [\<lparr>Targets = [''play.min.io:9000'']\<rparr>]\<rparr>]"
    by (simp add: filled_def defaultJobName_def template_path_def defaultMetricsPath_def)
  from structured_rendering [of ?E ?c "''unsupported''" process_init "[]" None] m
  show ?thesis
    unfolding E c Let_def by simp
qed

subsection \<open>The credential\<close>

text \<open>The default validity is a \<open>time.Duration\<close>, a signed 64-bit count of nanoseconds.\<close>

lemma defaultPrometheusJWTExpiry_int64: "0 < defaultPrometheusJWTExpiry \<and> defaultPrometheusJWTExpiry < 2 ^ 63"
  by (simp add: defaultPrometheusJWTExpiry_def Hour_def)

text \<open>
  With the library's HS512 signer the credential is the header segment, the claims segment
  and the signature segment, joined by dots; no secret makes the signer fail.
\<close>

lemma json_Header_HS512:
  "json_Header (Header (NewWithClaims SigningMethodHS512 c)) =
     ''{'' @ [CHR 0x22] @ ''alg'' @ [CHR 0x22] @ '':'' @ [CHR 0x22] @ ''HS512'' @ [CHR 0x22] @ '','' @
     [CHR 0x22] @ ''typ'' @ [CHR 0x22] @ '':'' @ [CHR 0x22] @ ''JWT'' @ [CHR 0x22] @ ''}''"
  by (simp add: json_Header_def NewWithClaims_def SigningMethodHS512_def compact_object_def
      json_string_def dquote_def htmlSafe_def)

lemma header_segment:
  "EncodeSegment (json_Header (Header (NewWithClaims SigningMethodHS512 c))) =
     ''eyJhbGciOiJIUzUxMiIsInR5cCI6IkpXVCJ9''"
  by (simp add: json_Header_HS512 EncodeSegment_def alphabet_def)

lemma HS512_SignedString_Inr:
  "HS512_SignedString t key =
     Inr (SigningString t @ ''.'' @ base64url (HMAC_SHA512 (map of_char key) (map of_char (SigningString t))))"
  by (simp add: HS512_SignedString_def HS512_Sign_def Let_def)

lemma HS512_credential:
  "\<exists>signature.
     mint HS512_SignedString accountIdentity secret issuedAt validity =
       Inr (''eyJhbGciOiJIUzUxMiIsInR5cCI6IkpXVCJ9'' @ ''.'' @
            EncodeSegment (json_StandardClaims
              \<lparr>Audience = [], ExpiresAt = Unix (Add issuedAt validity), Id = [], IssuedAt = 0,
               Issuer = ''prometheus'', NotBefore = 0, Subject = accountIdentity\<rparr>) @
            ''.'' @ signature)"
proof -
  let ?claims = "\<lparr>Audience = [], ExpiresAt = Unix (Add issuedAt validity), Id = [], IssuedAt = 0,
               Issuer = ''prometheus'', NotBefore = 0, Subject = accountIdentity\<rparr>"
  have "SigningString (NewWithClaims SigningMethodHS512 ?claims) =
      ''eyJhbGciOiJIUzUxMiIsInR5cCI6IkpXVCJ9'' @ ''.'' @ EncodeSegment (json_StandardClaims ?claims)"
    unfolding SigningString_def header_segment by (simp add: NewWithClaims_def)
  then show ?thesis
    unfolding mint_def Let_def HS512_SignedString_Inr by simp
qed

subsection \<open>The token parser\<close>

text \<open>Decoding a segment undoes encoding it, and no segment holds a dot.\<close>

lemma alphabet_table: "list_all (\<lambda>n. b64_index (alphabet n) = Some n) [0..<64]"
  by (simp add: upt_rec [of 0] upt_rec [of "Suc 0"] numeral_2_eq_2 [symmetric] upt_rec_numeral
      alphabet_def b64_index_def)

lemma b64_index_alphabet: "n < 64 \<Longrightarrow> b64_index (alphabet n) = Some n"
  using alphabet_table by (simp add: list_all_iff)

lemma hex_table: "list_all (\<lambda>n. hexval (hex n) = Some n) [0..<16]"
  by (simp add: upt_rec [of 0] upt_rec [of "Suc 0"] numeral_2_eq_2 [symmetric] upt_rec_numeral
      hex_def hexval_def)

lemma hexval_hex: "n < 16 \<Longrightarrow> hexval (hex n) = Some n"
  using hex_table by (simp add: list_all_iff)

lemma base64url_decode_encode:
  "\<forall>b \<in> set bs. b < 256 \<Longrightarrow> base64url_decode (base64url bs) = Some bs"
proof (induction bs rule: base64url.induct)
  case 1
  show ?case by simp
next
  case (2 a)
  then have "a < 256" by simp
  then have "a div 4 < 64" "a mod 4 * 16 < 64" "a div 4 * 4 + a mod 4 * 16 div 16 = a" by auto
  then show ?case
    by (simp add: b64_index_alphabet)
next
  case (3 a b)
  then have "a < 256" "b < 256" by simp_all
  then have "a div 4 < 64" "a mod 4 * 16 + b div 16 < 64" "b mod 16 * 4 < 64"
    "a div 4 * 4 + (a mod 4 * 16 + b div 16) div 16 = a"
    "(a mod 4 * 16 + b div 16) mod 16 * 16 + b mod 16 * 4 div 4 = b"
    by (auto simp: div_add1_eq)
  then show ?case
    by (simp add: b64_index_alphabet)
next
  case (4 a b c bs)
  then have "a < 256" "b < 256" "c < 256" and rest: "\<forall>b \<in> set bs. b < 256" by simp_all
  then have "a div 4 < 64" "a mod 4 * 16 + b div 16 < 64" "b mod 16 * 4 + c div 64 < 64" "c mod 64 < 64"
    "a div 4 * 4 + (a mod 4 * 16 + b div 16) div 16 = a"
    "(a mod 4 * 16 + b div 16) mod 16 * 16 + (b mod 16 * 4 + c div 64) div 4 = b"
    "(b mod 16 * 4 + c div 64) mod 4 * 64 + c mod 64 = c"
    by (auto simp: div_add1_eq)
  with 4(1) [OF rest] show ?case
    by (simp add: b64_index_alphabet)
qed

lemma b64_index_alphabet_mod: "b64_index (alphabet n) = Some (n mod 64)"
proof -
  have "alphabet n = alphabet (n mod 64)"
    by (simp add: alphabet_def)
  then show ?thesis
    by (simp add: b64_index_alphabet)
qed

lemma b64_index_base64url: "c \<in> set (base64url bs) \<Longrightarrow> b64_index c \<noteq> None"
  by (induction bs rule: base64url.induct) (auto simp: b64_index_alphabet_mod)

lemma no_dot_base64url: "CHR ''.'' \<notin> set (base64url bs)"
  using b64_index_base64url [of "CHR ''.''" bs] by (auto simp: b64_index_def)

lemma DecodeSegment_EncodeSegment: "DecodeSegment (EncodeSegment s) = Some s"
proof -
  have "\<forall>b \<in> set (map of_char s). b < (256::nat)"
    by simp
  then show ?thesis
    by (simp add: DecodeSegment_def EncodeSegment_def base64url_decode_encode comp_def)
qed

lemma no_dot_EncodeSegment: "CHR ''.'' \<notin> set (EncodeSegment s)"
  by (simp add: EncodeSegment_def no_dot_base64url)

lemma split_dot_plain: "CHR ''.'' \<notin> set a \<Longrightarrow> split_dot a = [a]"
  by (induction a) auto

lemma split_dot_append:
  "CHR ''.'' \<notin> set a \<Longrightarrow> split_dot (a @ CHR ''.'' # rest) = a # split_dot rest"
  by (induction a) auto

lemma split_dot_token:
  assumes "CHR ''.'' \<notin> set h" and "CHR ''.'' \<notin> set c" and "CHR ''.'' \<notin> set sg"
  shows "split_dot (h @ ''.'' @ c @ ''.'' @ sg) = [h, c, sg]"
  using assms by (simp add: split_dot_append split_dot_plain)

text \<open>
  Reading a string literal undoes writing it, up to the coercion of the string to
  well-formed UTF-8, which leaves a well-formed string as it is.
\<close>

lemma rune_width_cases:
  assumes "rune_width xs = w" and "w \<noteq> 0"
  obtains (two) s0 s1 r sz lo hi where
      "xs = s0 # s1 # r" "utf8_first s0 = Some (sz, lo, hi)" "\<not> (s1 < lo \<or> hi < s1)"
      "sz \<le> 2" "w = 2"
  | (three) s0 s1 s2 r sz lo hi where
      "xs = s0 # s1 # s2 # r" "utf8_first s0 = Some (sz, lo, hi)" "\<not> (s1 < lo \<or> hi < s1)"
      "\<not> sz \<le> 2" "continuation s2" "sz \<le> 3" "w = 3"
  | (four) s0 s1 s2 s3 r sz lo hi where
      "xs = s0 # s1 # s2 # s3 # r" "utf8_first s0 = Some (sz, lo, hi)" "\<not> (s1 < lo \<or> hi < s1)"
      "\<not> sz \<le> 2" "continuation s2" "\<not> sz \<le> 3" "continuation s3" "w = 4"
proof (cases xs)
  case Nil
  with assms show ?thesis by (simp add: rune_width_def)
next
  case xs: (Cons s0 r0)
  show ?thesis
  proof (cases "utf8_first s0")
    case None
    with assms xs show ?thesis by (simp add: rune_width_def)
  next
    case (Some f)
    obtain sz lo hi where f: "f = (sz, lo, hi)" by (cases f) auto
    show ?thesis
    proof (cases r0)
      case Nil
      with assms xs Some f show ?thesis by (simp add: rune_width_def)
    next
      case r0: (Cons s1 r1)
      show ?thesis
      proof (cases "s1 < lo \<or> hi < s1")
        case True
        with assms xs Some f r0 show ?thesis by (simp add: rune_width_def)
      next
        case s1: False
        show ?thesis
        proof (cases "sz \<le> 2")
          case True
          with assms xs Some f r0 s1 have "w = 2" by (simp add: rune_width_def)
          with xs Some f r0 s1 True show ?thesis by (intro two [of s0 s1 r1 sz lo hi]) auto
        next
          case sz2: False
          show ?thesis
          proof (cases r1)
            case Nil
            with assms xs Some f r0 s1 sz2 show ?thesis by (simp add: rune_width_def)
          next
            case r1: (Cons s2 r2)
            show ?thesis
            proof (cases "continuation s2")
              case False
              with assms xs Some f r0 s1 sz2 r1 show ?thesis by (simp add: rune_width_def)
            next
              case s2: True
              show ?thesis
              proof (cases "sz \<le> 3")
                case True
                with assms xs Some f r0 s1 sz2 r1 s2 have "w = 3" by (simp add: rune_width_def)
                with xs Some f r0 s1 sz2 r1 s2 True show ?thesis by (intro three [of s0 s1 s2 r2 sz lo hi]) auto
              next
                case sz3: False
                show ?thesis
                proof (cases r2)
                  case Nil
                  with assms xs Some f r0 s1 sz2 r1 s2 sz3 show ?thesis by (simp add: rune_width_def)
                next
                  case r2: (Cons s3 r3)
                  show ?thesis
                  proof (cases "continuation s3")
                    case False
                    with assms xs Some f r0 s1 sz2 r1 s2 sz3 r2 show ?thesis
                      by (simp add: rune_width_def)
                  next
                    case True
                    with assms xs Some f r0 s1 sz2 r1 s2 sz3 r2 have "w = 4"
                      by (simp add: rune_width_def)
                    with xs Some f r0 s1 sz2 r1 s2 sz3 r2 True show ?thesis by (intro four [of s0 s1 s2 s3 r3 sz lo hi]) auto
                  qed
                qed
              qed
            qed
          qed
        qed
      qed
    qed
  qed
qed

lemma rune_width_values:
  assumes "rune_width xs = w" and "w \<noteq> 0"
  shows "w \<le> length xs \<and> 0 < w"
  using assms by (cases rule: rune_width_cases) simp_all

lemma rune_width_take:
  assumes "rune_width xs = w" and "w \<noteq> 0"
  shows "rune_width (take w xs @ ys) = w"
  using assms by (cases rule: rune_width_cases) (simp_all add: rune_width_def)

lemma rune_width_ascii: "x < 0x80 \<Longrightarrow> rune_width (x # xs) = 0"
  by (simp add: rune_width_def utf8_first_def)

lemma prepend_Some [simp]: "prepend a (Some (v, r)) = Some (a @ v, r)"
  by (simp add: prepend_def)

lemma char_eqI: "(of_char c :: nat) = of_char d \<Longrightarrow> c = d"
  by simp

lemma char_of_eq: "(of_char c :: nat) = n \<Longrightarrow> char_of n = c"
  by auto

lemma unquote_safe:
  assumes "htmlSafe (of_char c)"
  shows "unquote (c # t) = prepend [c] (unquote t)"
proof -
  from assms have "c \<noteq> CHR 0x22" "c \<noteq> CHR 0x5C" "\<not> (of_char c :: nat) < 0x20" "(of_char c :: nat) < 0x80"
    by (auto simp: htmlSafe_def)
  then show ?thesis by simp
qed

lemma getu4_00:
  assumes "b < 256"
  shows "getu4 (CHR ''0'' # CHR ''0'' # hex (b div 16) # hex (b mod 16) # t) = Some b"
proof -
  from assms have "b div 16 < 16" "b mod 16 < 16" by auto
  then have "hexval (hex (b div 16)) = Some (b div 16)" "hexval (hex (b mod 16)) = Some (b mod 16)"
    by (simp_all add: hexval_hex)
  then show ?thesis
    by (simp add: getu4_def hexval_def)
qed

lemma unquote_escape:
  assumes "(of_char c :: nat) < 0x80" and "\<not> htmlSafe (of_char c)"
  shows "unquote (escape_byte c @ t) = prepend [c] (unquote t)"
proof -
  let ?b = "of_char c :: nat"
  consider "?b = 0x5C" | "?b = 0x22" | "?b = 0x0A" | "?b = 0x0D" | "?b = 0x09"
    | "?b \<noteq> 0x5C" "?b \<noteq> 0x22" "?b \<noteq> 0x0A" "?b \<noteq> 0x0D" "?b \<noteq> 0x09"
    by blast
  then show ?thesis
  proof cases
    case 1
    then have "c = CHR 0x5C" by (intro char_eqI) simp
    then show ?thesis
      by (simp add: escape_byte_def backslash_def escaped_def)
  next
    case 2
    then have "c = CHR 0x22" by (intro char_eqI) simp
    then show ?thesis
      by (simp add: escape_byte_def backslash_def escaped_def)
  next
    case 3
    then have "c = CHR 0x0A" by (intro char_eqI) simp
    then show ?thesis
      by (simp add: escape_byte_def backslash_def escaped_def)
  next
    case 4
    then have "c = CHR 0x0D" by (intro char_eqI) simp
    then show ?thesis
      by (simp add: escape_byte_def backslash_def escaped_def)
  next
    case 5
    then have "c = CHR 0x09" by (intro char_eqI) simp
    then show ?thesis
      by (simp add: escape_byte_def backslash_def escaped_def)
  next
    case 6
    have b: "?b < 256" using assms(1) by simp
    have c: "[char_of ?b] = [c]" by simp
    from 6 have "escape_byte c @ t =
        CHR 0x5C # CHR ''u'' # CHR ''0'' # CHR ''0'' # hex (?b div 16) # hex (?b mod 16) # t"
      by (simp add: escape_byte_def backslash_def Let_def)
    moreover have "EncodeRune ?b = [c]"
      using assms(1) by (simp add: EncodeRune_def)
    ultimately show ?thesis
      using assms(1) by (simp add: getu4_00 [OF b])
  qed
qed

lemma EncodeRune_FFFD: "EncodeRune 0xFFFD = [CHR 0xEF, CHR 0xBF, CHR 0xBD]"
  by (simp add: EncodeRune_def char_of_eq)

lemma EncodeRune_2028:
  "EncodeRune 0x2028 = [CHR 0xE2, CHR 0x80, CHR 0xA8]"
  "EncodeRune 0x2029 = [CHR 0xE2, CHR 0x80, CHR 0xA9]"
  by (simp_all add: EncodeRune_def char_of_eq)

lemma unquote_fffd:
  "unquote (backslash # ''ufffd'' @ t) = prepend [CHR 0xEF, CHR 0xBF, CHR 0xBD] (unquote t)"
  by (simp add: backslash_def getu4_def hexval_def EncodeRune_FFFD)

lemma unquote_2028:
  "unquote (backslash # ''u2028'' @ t) = prepend [CHR 0xE2, CHR 0x80, CHR 0xA8] (unquote t)"
  "unquote (backslash # ''u2029'' @ t) = prepend [CHR 0xE2, CHR 0x80, CHR 0xA9] (unquote t)"
  by (simp_all add: backslash_def getu4_def hexval_def EncodeRune_2028)

lemma unquote_rune:
  assumes "\<not> (of_char c :: nat) < 0x80" and "rune_width (map of_char (c # cs)) = w" and "w \<noteq> 0"
  shows "unquote (take w (c # cs) @ t) = prepend (take w (c # cs)) (unquote (t))"
proof -
  from rune_width_values [OF assms(2,3)] have w: "w \<le> Suc (length cs)" "0 < w"
    by auto
  then obtain v where v: "w = Suc v" "v \<le> length cs"
    by (cases w) auto
  have "rune_width (take w (map of_char (c # cs)) @ map of_char t) = w"
    using assms(2,3) by (rule rune_width_take)
  then have width: "rune_width (map of_char (c # take v cs @ t)) = w"
    using v by (simp add: take_map)
  have "c \<noteq> CHR 0x22" "c \<noteq> CHR 0x5C" "\<not> (of_char c :: nat) < 0x20"
    using assms(1) by auto
  with assms(1) width v assms(3) show ?thesis
    by (simp add: Let_def)
qed

lemma unquote_string_body:
  "unquote (string_body s @ CHR 0x22 # rest) = Some (ToValidUTF8 s, rest)"
proof (induction "length s" arbitrary: s rule: less_induct)
  case less
  show ?case
  proof (cases s)
    case Nil
    then show ?thesis by simp
  next
    case (Cons c cs)
    note IH = less [of t for t, unfolded Cons]
    show ?thesis
    proof (cases "(of_char c :: nat) < 0x80")
      case True
      have body: "string_body (c # cs) =
          (if htmlSafe (of_char c) then [c] else escape_byte c) @ string_body cs"
        using True by simp
      have valid: "ToValidUTF8 (c # cs) = c # ToValidUTF8 cs"
        using True by simp
      have "unquote (((if htmlSafe (of_char c) then [c] else escape_byte c) @ string_body cs) @
          CHR 0x22 # rest) = prepend [c] (unquote (string_body cs @ CHR 0x22 # rest))"
        using unquote_safe [of c "string_body cs @ CHR 0x22 # rest"]
          unquote_escape [OF True, of "string_body cs @ CHR 0x22 # rest"]
        by (cases "htmlSafe (of_char c)") (simp_all del: unquote.simps)
      with IH [of cs] show ?thesis
        unfolding Cons body valid by (simp del: unquote.simps)
    next
      case False
      let ?w = "rune_width (map of_char (c # cs))"
      show ?thesis
      proof (cases "?w = 0")
        case True
        with False IH [of cs] unquote_fffd [of "string_body cs @ CHR 0x22 # rest"] show ?thesis
          unfolding Cons by (simp add: Let_def del: unquote.simps)
      next
        case width: False
        from rune_width_values [OF refl width] have w: "?w \<le> Suc (length cs)" "0 < ?w"
          by auto
        then have shorter: "length (drop (?w - 1) cs) < length (c # cs)"
          by simp
        have rest: "unquote (string_body (drop (?w - 1) cs) @ CHR 0x22 # rest) =
            Some (ToValidUTF8 (drop (?w - 1) cs), rest)"
          using IH [OF shorter] .
        consider (ls) "?w = 3" "map of_char (take 3 (c # cs)) = [0xE2, 0x80, 0xA8 :: nat]"
          | (ps) "?w = 3" "map of_char (take 3 (c # cs)) = [0xE2, 0x80, 0xA9 :: nat]"
          | (raw) "\<not> (?w = 3 \<and> map of_char (take 3 (c # cs)) = [0xE2, 0x80, 0xA8 :: nat])"
              "\<not> (?w = 3 \<and> map of_char (take 3 (c # cs)) = [0xE2, 0x80, 0xA9 :: nat])"
          by blast
        then show ?thesis
        proof cases
          case ls
          from ls(2) have "map char_of (map of_char (take 3 (c # cs)) :: nat list) =
              [CHR 0xE2, CHR 0x80, CHR 0xA8]"
            by (simp add: char_of_eq)
          then have "take 3 (c # cs) = [CHR 0xE2, CHR 0x80, CHR 0xA8]"
            by (simp add: comp_def)
          with False width ls rest
            unquote_2028(1) [of "string_body (drop 2 cs) @ CHR 0x22 # rest"] show ?thesis
            unfolding Cons
            by (simp add: Let_def del: unquote.simps)
        next
          case ps
          from ps(2) have "map char_of (map of_char (take 3 (c # cs)) :: nat list) =
              [CHR 0xE2, CHR 0x80, CHR 0xA9]"
            by (simp add: char_of_eq)
          then have "take 3 (c # cs) = [CHR 0xE2, CHR 0x80, CHR 0xA9]"
            by (simp add: comp_def)
          with False width ps rest
            unquote_2028(2) [of "string_body (drop 2 cs) @ CHR 0x22 # rest"] show ?thesis
            unfolding Cons
            by (simp add: Let_def del: unquote.simps)
        next
          case raw
          have "string_body (c # cs) =
              take ?w (c # cs) @ string_body (drop (?w - 1) cs)"
            by (simp only: string_body.simps Let_def False width raw if_False)
          moreover have "ToValidUTF8 (c # cs) = take ?w (c # cs) @ ToValidUTF8 (drop (?w - 1) cs)"
            using False width by (simp add: Let_def)
          ultimately show ?thesis
            unfolding Cons
            using unquote_rune [OF False refl width,
                of "string_body (drop (?w - 1) cs) @ CHR 0x22 # rest"] rest
            by (simp del: unquote.simps string_body.simps ToValidUTF8.simps)
        qed
      qed
    qed
  qed
qed

lemma ToValidUTF8_valid: "ValidString s \<Longrightarrow> ToValidUTF8 s = s"
proof (induction "length s" arbitrary: s rule: less_induct)
  case less
  show ?case
  proof (cases s)
    case Nil
    then show ?thesis by simp
  next
    case (Cons c cs)
    show ?thesis
    proof (cases "(of_char c :: nat) < 0x80")
      case True
      with less Cons show ?thesis by simp
    next
      case False
      let ?w = "rune_width (map of_char (c # cs))"
      from less(2) Cons False have width: "?w \<noteq> 0" and valid: "ValidString (drop (?w - 1) cs)"
        by (simp_all add: Let_def split: if_splits)
      from rune_width_values [OF refl width] have w: "?w \<le> Suc (length cs)" "0 < ?w"
        by auto
      then obtain v where v: "?w = Suc v" "v \<le> length cs"
        by (cases ?w) auto
      have "length (drop (?w - 1) cs) < length s"
        using Cons by simp
      from less(1) [OF this valid] have "ToValidUTF8 (drop (?w - 1) cs) = drop (?w - 1) cs" .
      with False width v show ?thesis
        unfolding Cons by (simp add: Let_def)
    qed
  qed
qed

text \<open>Reading an integer literal undoes writing it.\<close>

lemma digit_table:
  "list_all (\<lambda>d. is_digit (''0123456789'' ! d) \<and> (of_char (''0123456789'' ! d) :: nat) - 48 = d \<and>
     (0 < d \<longrightarrow> ''0123456789'' ! d \<noteq> CHR ''0'')) [0..<10]"
  by (simp add: upt_rec [of 0] upt_rec [of "Suc 0"] numeral_2_eq_2 [symmetric] upt_rec_numeral
      is_digit_def)

lemma digit:
  assumes "d < 10"
  shows "is_digit (''0123456789'' ! d)" and "(of_char (''0123456789'' ! d) :: nat) - 48 = d"
    and "0 < d \<Longrightarrow> ''0123456789'' ! d \<noteq> CHR ''0''"
  using digit_table assms by (simp_all add: list_all_iff)

lemma decimal_nonempty: "decimal n \<noteq> []"
  by (subst decimal.simps) simp

lemma decimal_digits: "c \<in> set (decimal n) \<Longrightarrow> is_digit c"
proof (induction n arbitrary: c rule: decimal.induct)
  case (1 n)
  show ?case
  proof (cases "n < 10")
    case True
    with "1.prems" show ?thesis
      by (subst (asm) decimal.simps) (simp add: digit(1))
  next
    case False
    then have "n mod 10 < 10" by simp
    with False "1.prems" "1.IH" digit(1) [of "n mod 10"] show ?thesis
      by (subst (asm) decimal.simps) auto
  qed
qed

lemma decimal_value: "foldl (\<lambda>acc d. acc * 10 + (of_char d - 48)) 0 (decimal n) = n"
proof (induction n rule: decimal.induct)
  case (1 n)
  show ?case
  proof (cases "n < 10")
    case True
    then show ?thesis
      by (subst decimal.simps) (simp add: digit(2))
  next
    case False
    then have "n mod 10 < 10" by simp
    with False "1.IH" digit(2) [of "n mod 10"] show ?thesis
      by (subst decimal.simps) simp
  qed
qed

lemma decimal_leading: "0 < n \<Longrightarrow> hd (decimal n) \<noteq> CHR ''0''"
proof (induction n rule: decimal.induct)
  case (1 n)
  show ?case
  proof (cases "n < 10")
    case True
    with "1.prems" digit(3) [of n] show ?thesis
      by (subst decimal.simps) simp
  next
    case False
    then have "0 < n div 10" by simp
    with False "1.IH" show ?thesis
      by (subst decimal.simps) (simp add: decimal_nonempty)
  qed
qed

lemma decimal_length: "1 < length (decimal n) \<Longrightarrow> 0 < n"
  by (cases "n = 0") (simp_all add: decimal.simps [of 0])

lemma parse_digits_decimal:
  assumes "\<not> is_digit c" and "c \<notin> {CHR ''.'', CHR ''e'', CHR ''E''}"
  shows "parse_digits (decimal n @ c # r) = Some (n, c # r)"
proof -
  have all: "\<forall>x \<in> set (decimal n). is_digit x"
    by (simp add: decimal_digits)
  have tw: "takeWhile is_digit (decimal n @ c # r) = decimal n"
    using all assms(1) by (simp add: takeWhile_append2)
  have dw: "dropWhile is_digit (decimal n @ c # r) = c # r"
    using all assms(1) by (simp add: dropWhile_append2)
  have "\<not> (1 < length (decimal n) \<and> hd (decimal n) = CHR ''0'')"
    using decimal_leading decimal_length by blast
  with assms(2) show ?thesis
    unfolding parse_digits_def tw dw Let_def
    by (simp add: decimal_nonempty decimal_value)
qed

lemma decimal_first: "decimal n = c # cs \<Longrightarrow> c \<noteq> CHR ''-'' \<and> c \<noteq> CHR 0x22"
  using decimal_digits [of c n] by (auto simp: is_digit_def)

lemma parse_int_json_int:
  assumes "c = CHR '','' \<or> c = CHR ''}''"
  shows "parse_int (json_int i @ c # r) = Some (i, c # r)"
proof -
  have c: "\<not> is_digit c" "c \<notin> {CHR ''.'', CHR ''e'', CHR ''E''}"
    using assms by (auto simp: is_digit_def)
  show ?thesis
  proof (cases "i < 0")
    case True
    then show ?thesis
      by (simp add: json_int_def parse_int_def parse_digits_decimal [OF c])
  next
    case False
    obtain d ds where d: "decimal (nat i) = d # ds"
      using decimal_nonempty [of "nat i"] by (cases "decimal (nat i)") auto
    have "parse_int (decimal (nat i) @ c # r) =
        map_option (\<lambda>(n, rest). (int n, rest)) (parse_digits (decimal (nat i) @ c # r))"
      using decimal_first [OF d] by (simp add: parse_int_def d)
    with False show ?thesis
      by (simp add: json_int_def parse_digits_decimal [OF c])
  qed
qed

lemma parse_value_json_int:
  assumes "c = CHR '','' \<or> c = CHR ''}''"
  shows "parse_value (json_int i @ c # r) = Some (JNumber i, c # r)"
proof -
  have "\<exists>d ds. json_int i = d # ds \<and> d \<noteq> CHR 0x22"
  proof (cases "i < 0")
    case True
    then show ?thesis by (simp add: json_int_def)
  next
    case False
    obtain d ds where "decimal (nat i) = d # ds"
      using decimal_nonempty [of "nat i"] by (cases "decimal (nat i)") auto
    with False decimal_first [of "nat i" d ds] show ?thesis
      by (simp add: json_int_def)
  qed
  then obtain d ds where d: "json_int i = d # ds" and "d \<noteq> CHR 0x22"
    by blast
  then have "parse_value (json_int i @ c # r) =
      map_option (\<lambda>(i, rest). (JNumber i, rest)) (parse_int (json_int i @ c # r))"
    by (simp add: parse_value_def)
  then show ?thesis
    by (simp add: parse_int_json_int [OF assms])
qed

lemma parse_value_json_string:
  "parse_value (json_string s @ r) = Some (JString (ToValidUTF8 s), r)"
  by (simp add: parse_value_def json_string_def dquote_def unquote_string_body
      del: unquote.simps)

lemma safe_key:
  assumes "\<forall>c \<in> set k. htmlSafe (of_char c)"
  shows "string_body k = k" and "ToValidUTF8 k = k"
  using assms by (induction k) (simp_all add: htmlSafe_def)

lemma unquote_key:
  assumes "\<forall>c \<in> set k. htmlSafe (of_char c)"
  shows "unquote (k @ CHR 0x22 # r) = Some (k, r)"
  using unquote_string_body [of k r] safe_key [OF assms] by simp

lemma parse_members_last:
  assumes "\<forall>c \<in> set k. htmlSafe (of_char c)"
    and "parse_value (v @ ''}'') = Some (jv, ''}'')"
  shows "parse_members (Suc fuel) (CHR 0x22 # k @ CHR 0x22 # CHR '':'' # v @ ''}'') = Some [(k, jv)]"
  using assms(2) unquote_key [OF assms(1), of "CHR '':'' # v @ ''}''"]
  by (simp del: unquote.simps)

lemma parse_members_more:
  assumes "\<forall>c \<in> set k. htmlSafe (of_char c)"
    and "parse_value (v @ CHR '','' # r) = Some (jv, CHR '','' # r)"
  shows "parse_members (Suc fuel) (CHR 0x22 # k @ CHR 0x22 # CHR '':'' # v @ CHR '','' # r) =
     map_option (\<lambda>ms. (k, jv) # ms) (parse_members fuel r)"
  using assms(2) unquote_key [OF assms(1), of "CHR '':'' # v @ CHR '','' # r"]
  by (simp del: unquote.simps)

text \<open>The header and the claims of a minted token, read back.\<close>

lemma parse_object_Header:
  "parse_object (json_Header (Header (NewWithClaims SigningMethodHS512 c))) =
     Some [(''alg'', JString ''HS512''), (''typ'', JString ''JWT'')]"
proof -
  have rendered: "json_Header (Header (NewWithClaims SigningMethodHS512 c)) =
      CHR ''{'' # CHR 0x22 # ''alg'' @ CHR 0x22 # CHR '':'' # json_string ''HS512'' @ CHR '','' #
        (CHR 0x22 # ''typ'' @ CHR 0x22 # CHR '':'' # json_string ''JWT'' @ ''}'')"
    by (simp add: json_Header_def NewWithClaims_def SigningMethodHS512_def compact_object_def
        dquote_def)
  have members: "parse_members (Suc (Suc f))
      (CHR 0x22 # ''alg'' @ CHR 0x22 # CHR '':'' # json_string ''HS512'' @ CHR '','' #
        (CHR 0x22 # ''typ'' @ CHR 0x22 # CHR '':'' # json_string ''JWT'' @ ''}'')) =
      Some [(''alg'', JString ''HS512''), (''typ'', JString ''JWT'')]" for f
  proof -
    have "parse_members (Suc f) (CHR 0x22 # ''typ'' @ CHR 0x22 # CHR '':'' # json_string ''JWT'' @ ''}'') =
        Some [(''typ'', JString (ToValidUTF8 ''JWT''))]"
      by (rule parse_members_last) (simp_all add: htmlSafe_def parse_value_json_string)
    moreover have "parse_members (Suc (Suc f))
        (CHR 0x22 # ''alg'' @ CHR 0x22 # CHR '':'' # json_string ''HS512'' @ CHR '','' #
          (CHR 0x22 # ''typ'' @ CHR 0x22 # CHR '':'' # json_string ''JWT'' @ ''}'')) =
        map_option (\<lambda>ms. (''alg'', JString (ToValidUTF8 ''HS512'')) # ms)
          (parse_members (Suc f) (CHR 0x22 # ''typ'' @ CHR 0x22 # CHR '':'' # json_string ''JWT'' @ ''}''))"
      by (rule parse_members_more) (simp_all add: htmlSafe_def parse_value_json_string)
    ultimately show ?thesis by simp
  qed
  let ?cs = "CHR 0x22 # ''alg'' @ CHR 0x22 # CHR '':'' # json_string ''HS512'' @ CHR '','' #
        (CHR 0x22 # ''typ'' @ CHR 0x22 # CHR '':'' # json_string ''JWT'' @ ''}'')"
  have "length ?cs = Suc (Suc (length ?cs - 2))"
    by simp
  then have "parse_members (length ?cs) ?cs =
      Some [(''alg'', JString ''HS512''), (''typ'', JString ''JWT'')]"
    using members [of "length ?cs - 2"] by simp
  then show ?thesis
    unfolding rendered parse_object_def by simp
qed

lemma parse_object_StandardClaims:
  fixes e :: int and sub :: string
  defines "c \<equiv> \<lparr>Audience = [], ExpiresAt = e, Id = [], IssuedAt = 0, Issuer = ''prometheus'',
                 NotBefore = 0, Subject = sub\<rparr>"
  shows "parse_object (json_StandardClaims c) =
     Some ((if e = 0 then [] else [(''exp'', JNumber e)]) @ [(''iss'', JString ''prometheus'')] @
           (if sub = [] then [] else [(''sub'', JString (ToValidUTF8 sub))]))"
proof -
  let ?sub = "CHR 0x22 # ''sub'' @ CHR 0x22 # CHR '':'' # json_string sub @ ''}''"
  let ?iss = "CHR 0x22 # ''iss'' @ CHR 0x22 # CHR '':'' # json_string ''prometheus''"
  let ?exp = "CHR 0x22 # ''exp'' @ CHR 0x22 # CHR '':'' # json_int e"
  let ?tail = "if sub = [] then ?iss @ ''}'' else ?iss @ CHR '','' # ?sub"
  let ?cs = "if e = 0 then ?tail else ?exp @ CHR '','' # ?tail"
  have rendered: "json_StandardClaims c = CHR ''{'' # ?cs"
    by (simp add: json_StandardClaims_def c_def compact_object_def dquote_def)
  have sub: "parse_members (Suc f) ?sub = Some [(''sub'', JString (ToValidUTF8 sub))]" for f
    by (rule parse_members_last) (simp_all add: htmlSafe_def parse_value_json_string)
  have tail: "parse_members (Suc (Suc f)) ?tail =
      Some ([(''iss'', JString ''prometheus'')] @
            (if sub = [] then [] else [(''sub'', JString (ToValidUTF8 sub))]))" for f
  proof (cases "sub = []")
    case True
    have "parse_members (Suc (Suc f))
        (CHR 0x22 # ''iss'' @ CHR 0x22 # CHR '':'' # json_string ''prometheus'' @ ''}'') =
        Some [(''iss'', JString (ToValidUTF8 ''prometheus''))]"
      by (rule parse_members_last) (simp_all add: htmlSafe_def parse_value_json_string)
    with True show ?thesis by simp
  next
    case False
    have "parse_members (Suc (Suc f))
        (CHR 0x22 # ''iss'' @ CHR 0x22 # CHR '':'' # json_string ''prometheus'' @ CHR '','' # ?sub) =
        map_option (\<lambda>ms. (''iss'', JString (ToValidUTF8 ''prometheus'')) # ms)
          (parse_members (Suc f) ?sub)"
      by (rule parse_members_more) (simp_all add: htmlSafe_def parse_value_json_string)
    with False sub [of f] show ?thesis by simp
  qed
  have members: "parse_members (Suc (Suc (Suc f))) ?cs =
      Some ((if e = 0 then [] else [(''exp'', JNumber e)]) @ [(''iss'', JString ''prometheus'')] @
            (if sub = [] then [] else [(''sub'', JString (ToValidUTF8 sub))]))" for f
  proof (cases "e = 0")
    case True
    with tail [of "Suc f"] show ?thesis by simp
  next
    case False
    have "parse_members (Suc (Suc (Suc f)))
        (CHR 0x22 # ''exp'' @ CHR 0x22 # CHR '':'' # json_int e @ CHR '','' # ?tail) =
        map_option (\<lambda>ms. (''exp'', JNumber e) # ms) (parse_members (Suc (Suc f)) ?tail)"
      by (rule parse_members_more) (simp_all add: htmlSafe_def parse_value_json_int)
    with False tail [of f] show ?thesis by simp
  qed
  have "3 \<le> length ?cs"
    by (simp add: json_string_def)
  then have "length ?cs = Suc (Suc (Suc (length ?cs - 3)))"
    by simp
  then have "parse_members (length ?cs) ?cs =
      Some ((if e = 0 then [] else [(''exp'', JNumber e)]) @ [(''iss'', JString ''prometheus'')] @
            (if sub = [] then [] else [(''sub'', JString (ToValidUTF8 sub))]))"
    using members [of "length ?cs - 3"] by simp
  moreover have "?cs \<noteq> ''}''"
    by simp
  ultimately show ?thesis
    unfolding rendered parse_object_def by (simp del: parse_members.simps)
qed

lemma StandardClaims_of_minted:
  "StandardClaims_of ((if e = 0 then [] else [(''exp'', JNumber e)]) @ [(''iss'', JString ''prometheus'')] @
       (if sub = [] then [] else [(''sub'', JString (ToValidUTF8 sub))])) =
     Some \<lparr>Audience = [], ExpiresAt = e, Id = [], IssuedAt = 0, Issuer = ''prometheus'',
           NotBefore = 0, Subject = ToValidUTF8 sub\<rparr>"
  by (simp add: StandardClaims_of_def string_field_def int_field_def)

lemma SHA512_bytes: "b \<in> set (SHA512 m) \<Longrightarrow> b < 256"
  by (auto simp: SHA512_def bytes_of_nat_def)

lemma HMAC_SHA512_bytes: "\<forall>b \<in> set (HMAC_SHA512 key msg). b < 256"
  by (simp add: HMAC_SHA512_def Let_def SHA512_bytes)

lemma HS512_Parse_SignedString:
  fixes e :: int and sub :: string
  defines "c \<equiv> \<lparr>Audience = [], ExpiresAt = e, Id = [], IssuedAt = 0, Issuer = ''prometheus'',
                 NotBefore = 0, Subject = sub\<rparr>"
  assumes signed: "HS512_SignedString (NewWithClaims SigningMethodHS512 c) key = Inr credential"
  shows "HS512_Parse credential key = Inr (c\<lparr>Subject := ToValidUTF8 sub\<rparr>)"
proof -
  let ?t = "NewWithClaims SigningMethodHS512 c"
  let ?h = "EncodeSegment (json_Header (Header ?t))"
  let ?c = "EncodeSegment (json_StandardClaims c)"
  let ?sg = "base64url (HMAC_SHA512 (map of_char key) (map of_char (?h @ ''.'' @ ?c)))"
  have credential: "credential = ?h @ ''.'' @ ?c @ ''.'' @ ?sg"
    using signed unfolding HS512_SignedString_Inr SigningString_def
    by (simp add: NewWithClaims_def)
  have split: "split_dot credential = [?h, ?c, ?sg]"
    unfolding credential
    by (rule split_dot_token) (simp_all add: no_dot_EncodeSegment no_dot_base64url)
  have header: "Option.bind (DecodeSegment ?h) parse_object =
      Some [(''alg'', JString ''HS512''), (''typ'', JString ''JWT'')]"
    by (simp add: DecodeSegment_EncodeSegment parse_object_Header)
  have claims: "Option.bind (Option.bind (DecodeSegment ?c) parse_object) StandardClaims_of =
      Some (c\<lparr>Subject := ToValidUTF8 sub\<rparr>)"
    unfolding c_def DecodeSegment_EncodeSegment bind.simps parse_object_StandardClaims
      StandardClaims_of_minted
    by simp
  have signature: "base64url_decode ?sg =
      Some (HMAC_SHA512 (map of_char key) (map of_char (?h @ ''.'' @ ?c)))"
    by (rule base64url_decode_encode) (rule HMAC_SHA512_bytes)
  show ?thesis
    unfolding HS512_Parse_def split list.case header claims signature option.case
    by simp
qed

text \<open>
  C2.  With the signer and the parser of the JWT library, for every account identity,
  secret (empty or not), issue time and validity: a credential is minted, and it decodes
  under the same secret to a payload whose issuer is \<open>prometheus\<close>, whose expiration is
  the Unix time of the issue time plus the validity, and whose subject is the account
  identity as the JSON encoder coerces it to UTF-8.  The subject is the account identity
  itself when that is well-formed UTF-8.  The default validity is 100 years of 365 days,
  in nanoseconds, so the command's credential expires 3153600000 seconds after the
  clock's reading.
\<close>

theorem minted_credential_decodes:
  "(\<exists>credential payload.
      mint HS512_SignedString accountIdentity secret issuedAt validity = Inr credential \<and>
      HS512_Parse credential secret = Inr payload \<and>
      Issuer payload = ''prometheus'' \<and>
      ExpiresAt payload = Unix (Add issuedAt validity) \<and>
      Subject payload = ToValidUTF8 accountIdentity \<and>
      (ValidString accountIdentity \<longrightarrow> Subject payload = accountIdentity)) \<and>
   defaultPrometheusJWTExpiry = 100 * 365 * 24 * 60 * 60 * 1000000000 \<and>
   Unix (Add issuedAt defaultPrometheusJWTExpiry) = Unix issuedAt + 100 * 365 * 24 * 60 * 60"
proof -
  let ?claims = "\<lparr>Audience = [], ExpiresAt = Unix (Add issuedAt validity), Id = [], IssuedAt = 0,
             Issuer = ''prometheus'', NotBefore = 0, Subject = accountIdentity\<rparr>"
  let ?t = "NewWithClaims SigningMethodHS512 ?claims"
  let ?credential = "SigningString ?t @ ''.'' @
      base64url (HMAC_SHA512 (map of_char secret) (map of_char (SigningString ?t)))"
  have signed: "HS512_SignedString ?t secret = Inr ?credential"
    by (rule HS512_SignedString_Inr)
  then have minted: "mint HS512_SignedString accountIdentity secret issuedAt validity =
      Inr ?credential"
    by (simp add: mint_def)
  have parsed: "HS512_Parse ?credential secret =
      Inr (?claims\<lparr>Subject := ToValidUTF8 accountIdentity\<rparr>)"
    using signed by (rule HS512_Parse_SignedString)
  have "ValidString accountIdentity \<longrightarrow> ToValidUTF8 accountIdentity = accountIdentity"
    by (simp add: ToValidUTF8_valid)
  with minted parsed have "\<exists>credential payload.
      mint HS512_SignedString accountIdentity secret issuedAt validity = Inr credential \<and>
      HS512_Parse credential secret = Inr payload \<and>
      Issuer payload = ''prometheus'' \<and>
      ExpiresAt payload = Unix (Add issuedAt validity) \<and>
      Subject payload = ToValidUTF8 accountIdentity \<and>
      (ValidString accountIdentity \<longrightarrow> Subject payload = accountIdentity)"
    by (intro exI [of _ ?credential]
        exI [of _ "?claims\<lparr>Subject := ToValidUTF8 accountIdentity\<rparr>"]) simp
  moreover have "defaultPrometheusJWTExpiry = 100 * 365 * 24 * 60 * 60 * 1000000000"
    by (simp add: defaultPrometheusJWTExpiry_def Hour_def)
  moreover have "Unix (Add issuedAt defaultPrometheusJWTExpiry) = Unix issuedAt + 100 * 365 * 24 * 60 * 60"
    by (simp add: defaultPrometheusJWTExpiry_def Hour_def Unix_def Add_def)
  ultimately show ?thesis
    by blast
qed

text \<open>
  The credential of the example run, for the access key \<open>minioadmin\<close> and the secret
  \<open>minioadmin\<close>, decodes to the access key and expires 100 years on.
\<close>

theorem minted_credential_decodes_witness:
  "ValidString ''minioadmin'' \<and>
   (\<exists>credential payload.
      mint HS512_SignedString ''minioadmin'' ''minioadmin'' 1613606600123456789
        defaultPrometheusJWTExpiry = Inr credential \<and>
      HS512_Parse credential ''minioadmin'' = Inr payload \<and>
      Subject payload = ''minioadmin'' \<and>
      Issuer payload = ''prometheus'' \<and>
      ExpiresAt payload = 4767206600)"
proof -
  have valid: "ValidString ''minioadmin''"
    by simp
  have expiry: "Unix (Add 1613606600123456789 defaultPrometheusJWTExpiry) = 4767206600"
    by (simp add: Unix_def Add_def defaultPrometheusJWTExpiry_def Hour_def)
  from minted_credential_decodes
    [of "''minioadmin''" "''minioadmin''" 1613606600123456789 defaultPrometheusJWTExpiry]
  obtain credential payload where
    "mint HS512_SignedString ''minioadmin'' ''minioadmin'' 1613606600123456789
       defaultPrometheusJWTExpiry = Inr credential"
    "HS512_Parse credential ''minioadmin'' = Inr payload"
    "Issuer payload = ''prometheus''"
    "ExpiresAt payload = Unix (Add 1613606600123456789 defaultPrometheusJWTExpiry)"
    "ValidString ''minioadmin'' \<longrightarrow> Subject payload = ''minioadmin''"
    by blast
  with valid expiry show ?thesis
    by (intro conjI exI [of _ credential] exI [of _ payload]) simp_all
qed

text \<open>
  An account identity that is not well-formed UTF-8 is not recovered.  The access keys
  of the single bytes 0xFF and 0xFE are minted into the same credential under the secret
  \<open>minioadmin\<close>, and that credential decodes to the subject U+FFFD, the three bytes
  0xEF 0xBF 0xBD.
\<close>

theorem ill_formed_identity_counterexample:
  "mint HS512_SignedString [CHR 0xFF] ''minioadmin'' 1613606600123456789 defaultPrometheusJWTExpiry =
     mint HS512_SignedString [CHR 0xFE] ''minioadmin'' 1613606600123456789 defaultPrometheusJWTExpiry \<and>
   (\<exists>credential.
      mint HS512_SignedString [CHR 0xFF] ''minioadmin'' 1613606600123456789
        defaultPrometheusJWTExpiry = Inr credential \<and>
      HS512_Parse credential ''minioadmin'' =
        Inr \<lparr>Audience = [], ExpiresAt = 4767206600, Id = [], IssuedAt = 0,
             Issuer = ''prometheus'', NotBefore = 0, Subject = [CHR 0xEF, CHR 0xBF, CHR 0xBD]\<rparr>) \<and>
   [CHR 0xEF, CHR 0xBF, CHR 0xBD] \<noteq> [CHR 0xFF]"
proof -
  let ?claims = "\<lambda>sub. \<lparr>Audience = [], ExpiresAt = 4767206600, Id = [], IssuedAt = 0,
             Issuer = ''prometheus'', NotBefore = 0, Subject = sub\<rparr>"
  let ?t = "\<lambda>sub. NewWithClaims SigningMethodHS512 (?claims sub)"
  let ?credential = "SigningString (?t [CHR 0xFF]) @ ''.'' @
      base64url (HMAC_SHA512 (map of_char ''minioadmin'') (map of_char (SigningString (?t [CHR 0xFF]))))"
  have expiry: "Unix (Add 1613606600123456789 defaultPrometheusJWTExpiry) = 4767206600"
    by (simp add: Unix_def Add_def defaultPrometheusJWTExpiry_def Hour_def)
  have minted: "mint HS512_SignedString sub ''minioadmin'' 1613606600123456789
      defaultPrometheusJWTExpiry = HS512_SignedString (?t sub) ''minioadmin''" for sub
    unfolding mint_def Let_def expiry ..
  have "string_body [CHR 0xFF] = string_body [CHR 0xFE]"
    by (simp add: rune_width_def utf8_first_def)
  then have "json_StandardClaims (?claims [CHR 0xFF]) = json_StandardClaims (?claims [CHR 0xFE])"
    by (simp add: json_StandardClaims_def json_string_def)
  then have "SigningString (?t [CHR 0xFF]) = SigningString (?t [CHR 0xFE])"
    by (simp add: SigningString_def NewWithClaims_def)
  then have same: "HS512_SignedString (?t [CHR 0xFF]) ''minioadmin'' =
      HS512_SignedString (?t [CHR 0xFE]) ''minioadmin''"
    unfolding HS512_SignedString_Inr by (simp only:)
  have signed: "HS512_SignedString (?t [CHR 0xFF]) ''minioadmin'' = Inr ?credential"
    by (rule HS512_SignedString_Inr)
  have coerced: "ToValidUTF8 [CHR 0xFF] = [CHR 0xEF, CHR 0xBF, CHR 0xBD]"
    by (simp add: rune_width_def utf8_first_def)
  have "HS512_Parse ?credential ''minioadmin'' =
      Inr ((?claims [CHR 0xFF])\<lparr>Subject := ToValidUTF8 [CHR 0xFF]\<rparr>)"
    using signed by (rule HS512_Parse_SignedString)
  then have parsed: "HS512_Parse ?credential ''minioadmin'' =
      Inr (?claims [CHR 0xEF, CHR 0xBF, CHR 0xBD])"
    unfolding coerced by simp
  have "\<exists>credential.
      mint HS512_SignedString [CHR 0xFF] ''minioadmin'' 1613606600123456789
        defaultPrometheusJWTExpiry = Inr credential \<and>
      HS512_Parse credential ''minioadmin'' = Inr (?claims [CHR 0xEF, CHR 0xBF, CHR 0xBD])"
    unfolding minted signed using parsed by (intro exI [of _ ?credential] conjI refl)
  moreover have "mint HS512_SignedString [CHR 0xFF] ''minioadmin'' 1613606600123456789
      defaultPrometheusJWTExpiry =
      mint HS512_SignedString [CHR 0xFE] ''minioadmin'' 1613606600123456789
      defaultPrometheusJWTExpiry"
    unfolding minted by (rule same)
  moreover have "[CHR 0xEF, CHR 0xBF, CHR 0xBD] \<noteq> [CHR 0xFF]"
    by simp
  ultimately show ?thesis
    by blast
qed

subsection \<open>The command\<close>

text \<open>How \<^const>\<open>generatePrometheusConfig\<close> ends, by the first collaborator that fails.\<close>

lemma generate_invalid_alias:
  assumes "\<not> isValidAlias E (cleanAlias E (Args_Get (Args E) 0))"
  shows "generatePrometheusConfig E p =
    (Exited 1, p\<lparr>diagnostics := diagnostics p @
       [''Invalid alias. '' @ errInvalidAlias (cleanAlias E (Args_Get (Args E) 0))]\<rparr>)"
  using assms by (simp add: generatePrometheusConfig_def Let_def then_do_def fatalIf_def)

lemma generate_unknown_alias:
  assumes "isValidAlias E (cleanAlias E (Args_Get (Args E) 0))"
    and "mustGetHostConfig E (cleanAlias E (Args_Get (Args E) 0)) = None"
  shows "generatePrometheusConfig E p =
    (Exited 1, p\<lparr>diagnostics := diagnostics p @
       [(''No such alias '' @ [CHR 0x60] @ cleanAlias E (Args_Get (Args E) 0) @ [CHR 0x60] @
         '' found.'') @ '' '' @
        errInvalidAliasedURL (cleanAlias E (Args_Get (Args E) 0))]\<rparr>)"
  using assms by (simp add: generatePrometheusConfig_def Let_def then_do_def fatalIf_def)


lemma generate_sign_error:
  assumes "isValidAlias E (cleanAlias E (Args_Get (Args E) 0))"
    and "mustGetHostConfig E (cleanAlias E (Args_Get (Args E) 0)) = Some hostConfig"
    and "url_Parse E (URL hostConfig) = Inr u"
    and "mint (SignedString E) (AccessKey hostConfig) (SecretKey hostConfig) (UTCNow E)
           defaultPrometheusJWTExpiry = Inl err"
  shows "generatePrometheusConfig E p = (Return (Some err), p)"
  using assms by (simp add: generatePrometheusConfig_def Let_def then_do_def)

lemma generate_client_error:
  assumes "isValidAlias E (cleanAlias E (Args_Get (Args E) 0))"
    and "mustGetHostConfig E (cleanAlias E (Args_Get (Args E) 0)) = Some hostConfig"
    and "url_Parse E (URL hostConfig) = Inr u"
    and "mint (SignedString E) (AccessKey hostConfig) (SecretKey hostConfig) (UTCNow E)
           defaultPrometheusJWTExpiry = Inr token"
    and "newAdminClient E (cleanAlias E (Args_Get (Args E) 0)) = Some cerr"
  shows "generatePrometheusConfig E p =
    (Exited 1, p\<lparr>diagnostics := diagnostics p @
       [''Unable to initialize admin connection. '' @ cerr]\<rparr>)"
  using assms by (simp add: generatePrometheusConfig_def Let_def then_do_def fatalIf_def)

lemma generate_info_error:
  assumes "isValidAlias E (cleanAlias E (Args_Get (Args E) 0))"
    and "mustGetHostConfig E (cleanAlias E (Args_Get (Args E) 0)) = Some hostConfig"
    and "url_Parse E (URL hostConfig) = Inr u"
    and "mint (SignedString E) (AccessKey hostConfig) (SecretKey hostConfig) (UTCNow E)
           defaultPrometheusJWTExpiry = Inr token"
    and "newAdminClient E (cleanAlias E (Args_Get (Args E) 0)) = None"
    and "ServerInfo E (cleanAlias E (Args_Get (Args E) 0)) = Inl e"
  shows "generatePrometheusConfig E p =
    (Exited 1, p\<lparr>diagnostics := diagnostics p @ [''Failed to get server info. '' @ e]\<rparr>)"
  using assms by (simp add: generatePrometheusConfig_def Let_def then_do_def fatalIf_def)

lemma generate_prints:
  assumes "isValidAlias E (cleanAlias E (Args_Get (Args E) 0))"
    and "mustGetHostConfig E (cleanAlias E (Args_Get (Args E) 0)) = Some hostConfig"
    and "url_Parse E (URL hostConfig) = Inr u"
    and "mint (SignedString E) (AccessKey hostConfig) (SecretKey hostConfig) (UTCNow E)
           defaultPrometheusJWTExpiry = Inr token"
    and "newAdminClient E (cleanAlias E (Args_Get (Args E) 0)) = None"
    and "ServerInfo E (cleanAlias E (Args_Get (Args E) 0)) = Inr info"
    and "Servers info = s # ss"
    and "assemble (selectTemplate (Version s)) token (url_Scheme u) (url_Host u) (vars p) =
           Return (c, g)"
    and "\<not> globalJSON E"
  shows "generatePrometheusConfig E p =
    (Return None, p\<lparr>vars := g, printed := printed p @ [PrometheusConfig_String E c]\<rparr>)"
  using assms
  by (simp add: generatePrometheusConfig_def Let_def then_do_def fatalIf_def printMsg_def)

lemma main_one_argument:
  assumes "length (Args E) = 1"
  shows "mainAdminPrometheusGenerate E p =
    (case generatePrometheusConfig E p of
       (Return err, p') \<Rightarrow> (Return None, p')
     | (Exited n, p') \<Rightarrow> (Exited n, p')
     | (Panicked m, p') \<Rightarrow> (Panicked m, p'))"
  using assms
  by (simp add: mainAdminPrometheusGenerate_def checkAdminPrometheusSyntax_def then_do_def
      split: prod.splits outcome.splits)

lemma completion_prints_once:
  assumes "length (Args E) = 1"
    and "isValidAlias E (cleanAlias E (Args_Get (Args E) 0))"
    and "mustGetHostConfig E (cleanAlias E (Args_Get (Args E) 0)) = Some hostConfig"
    and "url_Parse E (URL hostConfig) = Inr u"
    and "mint (SignedString E) (AccessKey hostConfig) (SecretKey hostConfig) (UTCNow E)
           defaultPrometheusJWTExpiry = Inr token"
    and "newAdminClient E (cleanAlias E (Args_Get (Args E) 0)) = None"
    and "ServerInfo E (cleanAlias E (Args_Get (Args E) 0)) = Inr info"
    and "Servers info = s # ss"
    and "assemble (selectTemplate (Version s)) token (url_Scheme u) (url_Host u) (vars p) =
           Return (c, g)"
    and "\<not> globalJSON E"
  shows "mainAdminPrometheusGenerate E p =
    (Return None, p\<lparr>vars := g, printed := printed p @ [PrometheusConfig_String E c]\<rparr>)"
  using generate_prints [OF assms(2-10)] assms(1)
  by (simp add: main_one_argument)

lemma returned_errors_are_dropped:
  assumes "length (Args E) = 1"
    and "generatePrometheusConfig E p = (Return (Some err), p')"
  shows "mainAdminPrometheusGenerate E p = (Return None, p')"
    and "exit_status (fst (mainAdminPrometheusGenerate E p)) = 0"
  using assms by (simp_all add: main_one_argument exit_status_def)

text \<open>
  A run in which every collaborator succeeds prints one message: the document assembled
  from the template the gate selects, in the rendering of the output mode.
\<close>

lemma command_output:
  assumes "isValidAlias E (cleanAlias E (Args_Get (Args E) 0))"
    and "mustGetHostConfig E (cleanAlias E (Args_Get (Args E) 0)) = Some hostConfig"
    and "url_Parse E (URL hostConfig) = Inr u"
    and "mint (SignedString E) (AccessKey hostConfig) (SecretKey hostConfig) (UTCNow E)
           defaultPrometheusJWTExpiry = Inr token"
    and "newAdminClient E (cleanAlias E (Args_Get (Args E) 0)) = None"
    and "ServerInfo E (cleanAlias E (Args_Get (Args E) 0)) = Inr info"
    and "Servers info = s # ss"
    and "earlier calls globals_init = Return (vars p)"
    and "MarshalIndent_ScrapeConfig E
           \<lparr>JobName = ''minio-job'', BearerToken = token,
            MetricsPath = template_path (selectTemplate (Version s)),
            Scheme = url_Scheme u, StaticConfigs = [\<lparr>Targets = [url_Host u]\<rparr>]\<rparr> = Inr b"
  shows "\<exists>g. generatePrometheusConfig E p =
    (Return None,
     p\<lparr>vars := g,
       printed := printed p @
         [if globalJSON E then b
          else PrometheusConfig_String E
                 (filled (selectTemplate (Version s)) token (url_Scheme u) (url_Host u))]\<rparr>)"
proof -
  let ?c = "filled (selectTemplate (Version s)) token (url_Scheme u) (url_Host u)"
  from assemble_after_earlier [of calls "selectTemplate (Version s)" token "url_Scheme u" "url_Host u"]
    assms(8)
  obtain g where g: "assemble (selectTemplate (Version s)) token (url_Scheme u) (url_Host u) (vars p) =
      Return (?c, g)"
    by auto
  show ?thesis
  proof (cases "globalJSON E")
    case False
    with generate_prints [OF assms(1-7) g] show ?thesis
      by (auto simp: Let_def)
  next
    case True
    have "PrometheusConfig_JSON E ?c (p\<lparr>vars := g\<rparr>) = (Return b, p\<lparr>vars := g\<rparr>)"
      using assms(9)
      by (simp add: PrometheusConfig_JSON_def filled_def then_do_def fatalIf_def defaultJobName_def)
    with True assms(1-7) g have "generatePrometheusConfig E p =
        (Return None, p\<lparr>vars := g, printed := printed p @ [b]\<rparr>)"
      by (simp add: generatePrometheusConfig_def Let_def then_do_def fatalIf_def printMsg_def)
    with True show ?thesis
      by (auto simp: Let_def)
  qed
qed

lemma fatal_errors_exit_nonzero:
  assumes "length (Args E) = 1"
    and "\<not> isValidAlias E (cleanAlias E (Args_Get (Args E) 0)) \<or>
         mustGetHostConfig E (cleanAlias E (Args_Get (Args E) 0)) = None \<or>
         (mustGetHostConfig E (cleanAlias E (Args_Get (Args E) 0)) = Some hostConfig \<and>
          url_Parse E (URL hostConfig) = Inr u \<and>
          mint (SignedString E) (AccessKey hostConfig) (SecretKey hostConfig) (UTCNow E)
            defaultPrometheusJWTExpiry = Inr token \<and>
          (newAdminClient E (cleanAlias E (Args_Get (Args E) 0)) \<noteq> None \<or>
           isl (ServerInfo E (cleanAlias E (Args_Get (Args E) 0)))))"
  shows "\<exists>p'. mainAdminPrometheusGenerate E p = (Exited 1, p') \<and> printed p' = printed p"
proof (cases "isValidAlias E (cleanAlias E (Args_Get (Args E) 0))")
  case False
  then show ?thesis
    using assms(1) by (simp add: main_one_argument generate_invalid_alias)
next
  case valid: True
  show ?thesis
  proof (cases "mustGetHostConfig E (cleanAlias E (Args_Get (Args E) 0))")
    case None
    with valid show ?thesis
      using assms(1) by (simp add: main_one_argument generate_unknown_alias)
  next
    case (Some hc)
    with valid assms(2) have hc: "hc = hostConfig"
      and u: "url_Parse E (URL hostConfig) = Inr u"
      and tok: "mint (SignedString E) (AccessKey hostConfig) (SecretKey hostConfig) (UTCNow E)
            defaultPrometheusJWTExpiry = Inr token"
      and tail: "newAdminClient E (cleanAlias E (Args_Get (Args E) 0)) \<noteq> None \<or>
           isl (ServerInfo E (cleanAlias E (Args_Get (Args E) 0)))"
      by auto
    show ?thesis
    proof (cases "newAdminClient E (cleanAlias E (Args_Get (Args E) 0))")
      case (Some cerr)
      from generate_client_error [OF valid _ u tok Some, of p] \<open>mustGetHostConfig E _ = Some hc\<close> hc
      show ?thesis
        using assms(1) by (simp add: main_one_argument)
    next
      case None
      with tail obtain e where "ServerInfo E (cleanAlias E (Args_Get (Args E) 0)) = Inl e"
        by (auto simp: isl_def)
      from generate_info_error [OF valid _ u tok None this, of p]
        \<open>mustGetHostConfig E _ = Some hc\<close> hc
      show ?thesis
        using assms(1) by (simp add: main_one_argument)
    qed
  qed
qed

lemma play_mint:
  "mint sign ''minioadmin'' secret 1613606600123456789 defaultPrometheusJWTExpiry =
     sign play_token secret"
  by (simp add: mint_def play_token_def Unix_def Add_def defaultPrometheusJWTExpiry_def Hour_def)


text \<open>
  With an empty secret key stored for the alias, the library's HS512 signer signs the token
  with the empty key: a credential is minted and the document holding it is printed.
\<close>

theorem empty_secret_counterexample:
  "mint HS512_SignedString ''minioadmin'' [] 1613606600123456789 defaultPrometheusJWTExpiry =
     Inr (SigningString play_token @ ''.'' @
          base64url (HMAC_SHA512 [] (map of_char (SigningString play_token)))) \<and>
   mainAdminPrometheusGenerate empty_secret_env process_init =
     (Return None,
      process_init
        \<lparr>vars := \<lparr>defaultConfig =
                    filled Current
                      (SigningString play_token @ ''.'' @
                       base64url (HMAC_SHA512 [] (map of_char (SigningString play_token))))
                      ''https'' ''play.min.io:9000'',
                  legacyConfig = legacyConfig_init\<rparr>,
          printed :=
            [PrometheusConfig_String empty_secret_env
               (filled Current
                  (SigningString play_token @ ''.'' @
                   base64url (HMAC_SHA512 [] (map of_char (SigningString play_token))))
                  ''https'' ''play.min.io:9000'')]\<rparr>)"
proof -
  let ?token = "SigningString play_token @ ''.'' @
      base64url (HMAC_SHA512 [] (map of_char (SigningString play_token)))"
  have minted: "mint HS512_SignedString ''minioadmin'' [] 1613606600123456789
      defaultPrometheusJWTExpiry = Inr ?token"
    by (simp add: play_mint HS512_SignedString_Inr)
  have gate: "selectTemplate ''2022-01-01T00-00-00Z'' = Current"
    by (simp add: selectTemplate_def cutover_def)
  have "assemble Current ?token ''https'' ''play.min.io:9000'' (vars process_init) =
      Return (filled Current ?token ''https'' ''play.min.io:9000'',
        \<lparr>defaultConfig = filled Current ?token ''https'' ''play.min.io:9000'',
         legacyConfig = filled Legacy [] [] []\<rparr>)"
    using assemble_filled [of Current ?token "''https''" "''play.min.io:9000''" "[]" "[]" "[]" "[]" "[]" "[]"]
    by (simp add: process_init_def globals_init_filled)
  then have "generatePrometheusConfig empty_secret_env process_init =
      (Return None, process_init
         \<lparr>vars := \<lparr>defaultConfig = filled Current ?token ''https'' ''play.min.io:9000'',
                   legacyConfig = filled Legacy [] [] []\<rparr>,
          printed := printed process_init @
            [PrometheusConfig_String empty_secret_env
               (filled Current ?token ''https'' ''play.min.io:9000'')]\<rparr>)"
    by (intro generate_prints
        [where hostConfig = "\<lparr>URL = ''https://play.min.io:9000'', AccessKey = ''minioadmin'',
                             SecretKey = []\<rparr>"
           and u = "\<lparr>url_Scheme = ''https'', url_Host = ''play.min.io:9000''\<rparr>"
           and info = "\<lparr>Servers = [\<lparr>Version = ''2022-01-01T00-00-00Z''\<rparr>]\<rparr>"
           and s = "\<lparr>Version = ''2022-01-01T00-00-00Z''\<rparr>" and ss = "[]"])
      (simp_all add: empty_secret_env_def play_env_def Args_Get_def minted gate)
  moreover have "length (Args empty_secret_env) = 1"
    by (simp add: empty_secret_env_def play_env_def)
  moreover have "filled Legacy [] [] [] = legacyConfig_init"
    using template_init_filled [of Legacy] by (simp add: template_init_def)
  ultimately show ?thesis
    using minted by (simp add: main_one_argument process_init_def)
qed

text \<open>
  C5, as amended.  The minter hands the token and the secret to the signer and returns
  what the signer returns: it fails exactly when the signer reports an error, and has no
  check of its own for an empty secret.  When it fails, no credential is produced, nothing
  is printed and \<^const>\<open>generatePrometheusConfig\<close> returns the signer's error.
\<close>

theorem signing_failure_propagates:
  "mint sign accountIdentity secret issuedAt validity =
     sign (NewWithClaims SigningMethodHS512
             \<lparr>Audience = [], ExpiresAt = Unix (Add issuedAt validity), Id = [], IssuedAt = 0,
              Issuer = ''prometheus'', NotBefore = 0, Subject = accountIdentity\<rparr>) secret \<and>
   (isValidAlias E (cleanAlias E (Args_Get (Args E) 0)) \<and>
    mustGetHostConfig E (cleanAlias E (Args_Get (Args E) 0)) = Some hostConfig \<and>
    url_Parse E (URL hostConfig) = Inr u \<and>
    mint (SignedString E) (AccessKey hostConfig) (SecretKey hostConfig) (UTCNow E)
      defaultPrometheusJWTExpiry = Inl err \<longrightarrow>
    generatePrometheusConfig E p = (Return (Some err), p))"
  by (simp add: mint_def generate_sign_error)

text \<open>A signer that refuses the empty key, on the alias with the empty secret key.\<close>

theorem signing_failure_propagates_witness:
  "mint refusing_sign ''minioadmin'' [] 1613606600123456789 defaultPrometheusJWTExpiry =
     Inl ''key is empty'' \<and>
   generatePrometheusConfig (empty_secret_env\<lparr>SignedString := refusing_sign\<rparr>) process_init =
     (Return (Some ''key is empty''), process_init)"
proof -
  let ?E = "empty_secret_env\<lparr>SignedString := refusing_sign\<rparr>"
  let ?hostConfig = "\<lparr>URL = ''https://play.min.io:9000'', AccessKey = ''minioadmin'',
                      SecretKey = []\<rparr>"
  let ?u = "\<lparr>url_Scheme = ''https'', url_Host = ''play.min.io:9000''\<rparr>"
  have minted: "mint refusing_sign ''minioadmin'' [] 1613606600123456789
      defaultPrometheusJWTExpiry = Inl ''key is empty''"
    by (simp add: play_mint refusing_sign_def)
  have "isValidAlias ?E (cleanAlias ?E (Args_Get (Args ?E) 0))"
    and "mustGetHostConfig ?E (cleanAlias ?E (Args_Get (Args ?E) 0)) = Some ?hostConfig"
    and "url_Parse ?E (URL ?hostConfig) = Inr ?u"
    and "mint (SignedString ?E) (AccessKey ?hostConfig) (SecretKey ?hostConfig) (UTCNow ?E)
      defaultPrometheusJWTExpiry = Inl ''key is empty''"
    by (simp_all add: empty_secret_env_def play_env_def Args_Get_def minted)
  with signing_failure_propagates
    [of refusing_sign "''minioadmin''" "[]" 1613606600123456789 defaultPrometheusJWTExpiry
        ?E ?hostConfig ?u "''key is empty''" process_init] minted
  show ?thesis
    by simp
qed

end
